theory Spec2Isabelle
  imports Complex_Main "HOL-Library.AList"
begin

section \<open>JavaScript values\<close>

text \<open>
  Records, payloads and filter values are JSON values: everything the gateway persists
  goes through \<^verbatim>\<open>JSON.stringify\<close> and comes back through \<^verbatim>\<open>JSON.parse\<close>.
  An object is an association list in insertion order, read with \<open>map_of\<close>; a property
  that is absent and a property whose value is \<^verbatim>\<open>undefined\<close> are the same thing here
  (\<^verbatim>\<open>JSON.stringify\<close> drops the latter), so the result of a property read is a
  \<open>jsval option\<close> with \<open>None\<close> for \<^verbatim>\<open>undefined\<close>.
  A number is a double, held as the rational it denotes (no signed zero, no
  infinities); \<^verbatim>\<open>NaN\<close> only arises as the result of arithmetic and is \<open>None\<close> in a
  \<open>rat option\<close>. A sum or a quotient is rounded to a double again, by \<open>round_double\<close>
  of the environment.
  Strings are sequences of 8-bit characters. JavaScript enumerates integer-like keys
  first; no statement below depends on the order of keys.
\<close>

datatype jsval =
    JNull
  | JBool bool
  | JNum rat
  | JStr string
  | JArr "jsval list"
  | JObj "(string \<times> jsval) list"

type_synonym obj = "(string \<times> jsval) list"

datatype error = Error string | TypeError

text \<open>
  What the code takes from its environment in one call: the clock, the identifier
  generator (\<^verbatim>\<open>Date.now().toString(36) + Math.random().toString(36).substr(2)\<close>) and the
  language built-ins that are not written out here. \<open>date_value v\<close> is
  \<^verbatim>\<open>new Date(v).getTime()\<close>, \<open>number_of_string\<close> is the conversion of a string to a
  number, \<open>string_of\<close> the conversion of a number, array or object to a string, and
  \<open>locale_compare\<close> is \<^verbatim>\<open>String.prototype.localeCompare\<close>, and \<open>round_double x\<close> is the
  double that IEEE 754 arithmetic returns for the exact result \<open>x\<close> of an operation.
  The clock is read once per service call.
\<close>

record env =
  now_ms :: rat
  now_iso :: string
  new_id :: string
  date_value :: "jsval option \<Rightarrow> rat option"
  number_of_string :: "string \<Rightarrow> rat option"
  string_of :: "jsval \<Rightarrow> string"
  locale_compare :: "string \<Rightarrow> string \<Rightarrow> rat"
  round_double :: "rat \<Rightarrow> rat"

fun truthy :: "jsval option \<Rightarrow> bool" where
  "truthy None = False"
| "truthy (Some JNull) = False"
| "truthy (Some (JBool b)) = b"
| "truthy (Some (JNum r)) = (r \<noteq> 0)"
| "truthy (Some (JStr s)) = (s \<noteq> [])"
| "truthy (Some (JArr xs)) = True"
| "truthy (Some (JObj kvs)) = True"

text \<open>\<^verbatim>\<open>x || d\<close>\<close>

fun or_else :: "jsval option \<Rightarrow> jsval \<Rightarrow> jsval" where
  "or_else None d = d"
| "or_else (Some v) d = (if truthy (Some v) then v else d)"

text \<open>
  \<^verbatim>\<open>v?.k\<close>, and \<^verbatim>\<open>v.k\<close> where \<open>v\<close> is known not to be null or undefined, for the
  property names the services use (none is an array index, \<^verbatim>\<open>length\<close> or a built-in
  method name, so only an object can carry them).
\<close>

fun member :: "jsval option \<Rightarrow> string \<Rightarrow> jsval option" where
  "member (Some (JObj kvs)) k = map_of kvs k"
| "member v k = None"

text \<open>
  \<^verbatim>\<open>a === b\<close> on values that come from different \<^verbatim>\<open>JSON.parse\<close> calls or from the
  caller: primitives are compared by value, arrays and objects by reference, and two
  such references are never the same. \<^verbatim>\<open>Set\<close> membership agrees with it on these values.
\<close>

fun strict_eq :: "jsval option \<Rightarrow> jsval option \<Rightarrow> bool" where
  "strict_eq None None = True"
| "strict_eq (Some JNull) (Some JNull) = True"
| "strict_eq (Some (JBool a)) (Some (JBool b)) = (a = b)"
| "strict_eq (Some (JNum a)) (Some (JNum b)) = (a = b)"
| "strict_eq (Some (JStr a)) (Some (JStr b)) = (a = b)"
| "strict_eq a b = False"

fun to_primitive :: "env \<Rightarrow> jsval option \<Rightarrow> jsval option" where
  "to_primitive e (Some (JArr xs)) = Some (JStr (string_of e (JArr xs)))"
| "to_primitive e (Some (JObj kvs)) = Some (JStr (string_of e (JObj kvs)))"
| "to_primitive e v = v"

fun to_number :: "env \<Rightarrow> jsval option \<Rightarrow> rat option" where
  "to_number e None = None"
| "to_number e (Some JNull) = Some 0"
| "to_number e (Some (JBool b)) = Some (if b then 1 else 0)"
| "to_number e (Some (JNum r)) = Some r"
| "to_number e (Some (JStr s)) = number_of_string e s"
| "to_number e (Some (JArr xs)) = number_of_string e (string_of e (JArr xs))"
| "to_number e (Some (JObj kvs)) = number_of_string e (string_of e (JObj kvs))"

fun to_string :: "env \<Rightarrow> jsval option \<Rightarrow> string" where
  "to_string e None = ''undefined''"
| "to_string e (Some JNull) = ''null''"
| "to_string e (Some (JBool b)) = (if b then ''true'' else ''false'')"
| "to_string e (Some (JStr s)) = s"
| "to_string e (Some v) = string_of e v"

fun is_string :: "jsval option \<Rightarrow> bool" where
  "is_string (Some (JStr s)) = True"
| "is_string v = False"

text \<open>Comparison of two strings by code units, as \<^verbatim>\<open><\<close> does on strings.\<close>

fun str_less :: "string \<Rightarrow> string \<Rightarrow> bool" where
  "str_less [] [] = False"
| "str_less [] (d # ds) = True"
| "str_less (c # cs) [] = False"
| "str_less (c # cs) (d # ds) =
     (if (of_char c :: nat) < of_char d then True
      else if (of_char d :: nat) < of_char c then False
      else str_less cs ds)"

text \<open>
  \<^verbatim>\<open>a < b\<close>: both operands are made primitive; two strings are compared as strings,
  anything else as numbers, and a comparison with \<^verbatim>\<open>NaN\<close> is false.
  \<^verbatim>\<open>a > b\<close> is \<open>js_lt e b a\<close>.
\<close>

definition num_lt :: "rat option \<Rightarrow> rat option \<Rightarrow> bool" where
  "num_lt x y = (case (x, y) of (Some a, Some b) \<Rightarrow> a < b | _ \<Rightarrow> False)"

definition num_le :: "rat option \<Rightarrow> rat option \<Rightarrow> bool" where
  "num_le x y = (case (x, y) of (Some a, Some b) \<Rightarrow> a \<le> b | _ \<Rightarrow> False)"

definition js_lt :: "env \<Rightarrow> jsval option \<Rightarrow> jsval option \<Rightarrow> bool" where
  "js_lt e a b =
     (let pa = to_primitive e a; pb = to_primitive e b
      in if is_string pa \<and> is_string pb then str_less (to_string e pa) (to_string e pb)
         else num_lt (to_number e pa) (to_number e pb))"

text \<open>\<^verbatim>\<open>a <= b\<close>; \<^verbatim>\<open>a >= b\<close> is \<open>js_le e b a\<close>.\<close>

definition js_le :: "env \<Rightarrow> jsval option \<Rightarrow> jsval option \<Rightarrow> bool" where
  "js_le e a b =
     (let pa = to_primitive e a; pb = to_primitive e b
      in if is_string pa \<and> is_string pb then \<not> str_less (to_string e pb) (to_string e pa)
         else num_le (to_number e pa) (to_number e pb))"

text \<open>
  \<^verbatim>\<open>a - b\<close>. The services use a difference only as the result of a sort comparator,
  which is read for its sign; rounding does not change the sign of a difference of two
  doubles, and the difference is left exact.
\<close>

definition js_sub :: "env \<Rightarrow> jsval option \<Rightarrow> jsval option \<Rightarrow> rat option" where
  "js_sub e a b =
     (case (to_number e a, to_number e b) of (Some x, Some y) \<Rightarrow> Some (x - y) | _ \<Rightarrow> None)"

section \<open>The persistence gateway (FirebaseService)\<close>

text \<open>
  \<^verbatim>\<open>initializeFirebase\<close> sets \<^verbatim>\<open>isFirebaseAvailable = false\<close> on each of its paths, so
  every gateway call takes the \<^verbatim>\<open>localStorage\<close> branch; that branch is what is
  modelled. The store is \<^verbatim>\<open>localStorage\<close>: one list of records per collection, and the
  parsed \<^verbatim>\<open>supermall_current_user\<close> entry (\<open>None\<close> when it is missing, empty or not
  JSON). The log entries written by \<^verbatim>\<open>Logger\<close> live under keys of their own, and
  \<^verbatim>\<open>Logger\<close> catches its own failures; they are left out. Storage is taken to have
  room, so that \<^verbatim>\<open>setItem\<close> does not fail.
\<close>

datatype collection = Users | Shops | Products | Categories | Offers

record store =
  items_of :: "collection \<Rightarrow> obj list"
  current_user :: "jsval option"

definition set_items :: "collection \<Rightarrow> obj list \<Rightarrow> store \<Rightarrow> store" where
  "set_items c xs s = s\<lparr>items_of := (items_of s)(c := xs)\<rparr>"

text \<open>\<^verbatim>\<open>{...target, ...src}\<close>\<close>

definition assign :: "obj \<Rightarrow> obj \<Rightarrow> obj" where
  "assign target src = fold (\<lambda>(k, v). AList.update k v) src target"

definition has_id :: "string \<Rightarrow> obj \<Rightarrow> bool" where
  "has_id i item = strict_eq (map_of item ''id'') (Some (JStr i))"

definition create :: "env \<Rightarrow> collection \<Rightarrow> obj \<Rightarrow> store \<Rightarrow> string \<times> store" where
  "create e c data s =
     (let newItem = AList.update ''createdAt'' (JStr (now_iso e))
                      (AList.update ''id'' (JStr (new_id e)) data)
      in (new_id e, set_items c (items_of s c @ [newItem]) s))"

text \<open>
  \<^verbatim>\<open>read(collection, id = null)\<close>: with a truthy id the first record with that id or
  \<^verbatim>\<open>null\<close>; otherwise (no id, or the empty string) the whole list.
\<close>

definition read :: "collection \<Rightarrow> string option \<Rightarrow> store \<Rightarrow> jsval" where
  "read c i s =
     (if truthy (map_option JStr i)
      then (case find (has_id (case i of Some x \<Rightarrow> x | None \<Rightarrow> [])) (items_of s c) of
              Some item \<Rightarrow> JObj item
            | None \<Rightarrow> JNull)
      else JArr (map JObj (items_of s c)))"

fun findIndex :: "('a \<Rightarrow> bool) \<Rightarrow> 'a list \<Rightarrow> nat option" where
  "findIndex P [] = None"
| "findIndex P (x # xs) = (if P x then Some 0 else map_option Suc (findIndex P xs))"

definition update :: "env \<Rightarrow> collection \<Rightarrow> string \<Rightarrow> obj \<Rightarrow> store \<Rightarrow> (error + unit) \<times> store" where
  "update e c i data s =
     (let items = items_of s c
      in case findIndex (has_id i) items of
           Some index \<Rightarrow>
             (Inr (),
              set_items c
                (items[index := AList.update ''updatedAt'' (JStr (now_iso e))
                                  (assign (items ! index) data)]) s)
         | None \<Rightarrow> (Inl (Error ''Document not found''), s))"

type_synonym filters = "(string \<times> jsval option) list"

text \<open>\<^verbatim>\<open>filters[key]\<close>, \<^verbatim>\<open>filters.key\<close>\<close>

definition lookup :: "filters \<Rightarrow> string \<Rightarrow> jsval option" where
  "lookup f k = (case map_of f k of Some v \<Rightarrow> v | None \<Rightarrow> None)"

text \<open>The predicate of the inner \<^verbatim>\<open>filteredItems.filter\<close> for one key of the filters.\<close>

definition matches :: "env \<Rightarrow> string \<Rightarrow> jsval option \<Rightarrow> obj \<Rightarrow> bool" where
  "matches e key v item =
     (if key = ''priceRange''
      then (let min = member v ''min''; max = member v ''max''
            in (if truthy min then js_le e min (map_of item ''price'') else True) \<and>
               (if truthy max then js_le e (map_of item ''price'') max else True))
      else strict_eq (map_of item key) v)"

definition query :: "env \<Rightarrow> collection \<Rightarrow> filters \<Rightarrow> store \<Rightarrow> obj list" where
  "query e c f s =
     fold (\<lambda>(key, v) filteredItems.
             if v \<noteq> None \<and> v \<noteq> Some JNull \<and> v \<noteq> Some (JStr [])
             then filter (matches e key v) filteredItems
             else filteredItems)
       f (items_of s c)"

section \<open>Sorting\<close>

text \<open>
  \<^verbatim>\<open>Array.prototype.sort(cmp)\<close>. The comparator returns a number (\<open>None\<close> for
  \<^verbatim>\<open>NaN\<close>, which the sort treats as zero) or throws. For a consistent comparator every
  conforming engine returns the stable sorted order, which this insertion sort computes;
  for an inconsistent or throwing comparator the order of comparisons, and with it the
  result, is left to the engine, and the insertion sort is one admissible behaviour.
\<close>

definition positive :: "rat option \<Rightarrow> bool" where
  "positive r = (case r of Some x \<Rightarrow> 0 < x | None \<Rightarrow> False)"

fun insert_by :: "('a \<Rightarrow> 'a \<Rightarrow> error + rat option) \<Rightarrow> 'a \<Rightarrow> 'a list \<Rightarrow> error + 'a list" where
  "insert_by cmp x [] = Inr [x]"
| "insert_by cmp x (y # ys) =
     (case cmp x y of
        Inl err \<Rightarrow> Inl err
      | Inr r \<Rightarrow>
          if positive r
          then (case insert_by cmp x ys of Inl err \<Rightarrow> Inl err | Inr zs \<Rightarrow> Inr (y # zs))
          else Inr (x # y # ys))"

fun js_sort :: "('a \<Rightarrow> 'a \<Rightarrow> error + rat option) \<Rightarrow> 'a list \<Rightarrow> error + 'a list" where
  "js_sort cmp [] = Inr []"
| "js_sort cmp (x # xs) =
     (case js_sort cmp xs of Inl err \<Rightarrow> Inl err | Inr ys \<Rightarrow> insert_by cmp x ys)"

text \<open>
  \<^verbatim>\<open>a.localeCompare(b)\<close>: a \<^verbatim>\<open>TypeError\<close> unless \<open>a\<close> is a string (no other JSON value
  has the method); \<open>b\<close> is converted to a string.
\<close>

fun localeCompare :: "env \<Rightarrow> jsval option \<Rightarrow> jsval option \<Rightarrow> error + rat option" where
  "localeCompare e (Some (JStr s)) b = Inr (Some (locale_compare e s (to_string e b)))"
| "localeCompare e a b = Inl TypeError"

text \<open>\<^verbatim>\<open>new Date(a) - new Date(b)\<close>, a difference of whole numbers of milliseconds.\<close>

definition date_diff :: "env \<Rightarrow> jsval option \<Rightarrow> jsval option \<Rightarrow> rat option" where
  "date_diff e a b =
     (case (date_value e a, date_value e b) of (Some x, Some y) \<Rightarrow> Some (x - y) | _ \<Rightarrow> None)"

text \<open>\<^verbatim>\<open>x.stats?.f || 0\<close>\<close>

definition stat :: "obj \<Rightarrow> string \<Rightarrow> jsval option" where
  "stat x f = Some (or_else (member (map_of x ''stats'') f) (JNum 0))"

definition sortShops :: "env \<Rightarrow> obj list \<Rightarrow> jsval \<Rightarrow> error + obj list" where
  "sortShops e shops sortBy =
     (if sortBy = JStr ''name''
        then js_sort (\<lambda>a b. localeCompare e (map_of a ''name'') (map_of b ''name'')) shops
      else if sortBy = JStr ''category''
        then js_sort (\<lambda>a b. localeCompare e (map_of a ''category'') (map_of b ''category'')) shops
      else if sortBy = JStr ''floor''
        then js_sort (\<lambda>a b. Inr (js_sub e (map_of a ''floor'') (map_of b ''floor''))) shops
      else if sortBy = JStr ''newest''
        then js_sort (\<lambda>a b. Inr (date_diff e (map_of b ''createdAt'') (map_of a ''createdAt''))) shops
      else if sortBy = JStr ''oldest''
        then js_sort (\<lambda>a b. Inr (date_diff e (map_of a ''createdAt'') (map_of b ''createdAt''))) shops
      else if sortBy = JStr ''views''
        then js_sort (\<lambda>a b. Inr (js_sub e (stat b ''views'') (stat a ''views''))) shops
      else if sortBy = JStr ''rating''
        then js_sort (\<lambda>a b. Inr (js_sub e (stat b ''rating'') (stat a ''rating''))) shops
      else Inr shops)"

definition sortProducts :: "env \<Rightarrow> obj list \<Rightarrow> jsval \<Rightarrow> error + obj list" where
  "sortProducts e products sortBy =
     (if sortBy = JStr ''name''
        then js_sort (\<lambda>a b. localeCompare e (map_of a ''name'') (map_of b ''name'')) products
      else if sortBy = JStr ''price_low''
        then js_sort (\<lambda>a b. Inr (js_sub e (map_of a ''price'') (map_of b ''price''))) products
      else if sortBy = JStr ''price_high''
        then js_sort (\<lambda>a b. Inr (js_sub e (map_of b ''price'') (map_of a ''price''))) products
      else if sortBy = JStr ''category''
        then js_sort (\<lambda>a b. localeCompare e (map_of a ''category'') (map_of b ''category'')) products
      else if sortBy = JStr ''newest''
        then js_sort (\<lambda>a b. Inr (date_diff e (map_of b ''createdAt'') (map_of a ''createdAt''))) products
      else if sortBy = JStr ''oldest''
        then js_sort (\<lambda>a b. Inr (date_diff e (map_of a ''createdAt'') (map_of b ''createdAt''))) products
      else if sortBy = JStr ''stock''
        then js_sort (\<lambda>a b. Inr (js_sub e (map_of b ''stock'') (map_of a ''stock''))) products
      else if sortBy = JStr ''views''
        then js_sort (\<lambda>a b. Inr (js_sub e (stat b ''views'') (stat a ''views''))) products
      else if sortBy = JStr ''rating''
        then js_sort (\<lambda>a b. Inr (js_sub e (stat b ''rating'') (stat a ''rating''))) products
      else Inr products)"

definition sortOffers :: "env \<Rightarrow> obj list \<Rightarrow> jsval \<Rightarrow> error + obj list" where
  "sortOffers e offers sortBy =
     (if sortBy = JStr ''title''
        then js_sort (\<lambda>a b. localeCompare e (map_of a ''title'') (map_of b ''title'')) offers
      else if sortBy = JStr ''discount_high''
        then js_sort (\<lambda>a b. Inr (js_sub e (map_of b ''discount'') (map_of a ''discount''))) offers
      else if sortBy = JStr ''discount_low''
        then js_sort (\<lambda>a b. Inr (js_sub e (map_of a ''discount'') (map_of b ''discount''))) offers
      else if sortBy = JStr ''newest''
        then js_sort (\<lambda>a b. Inr (date_diff e (map_of b ''createdAt'') (map_of a ''createdAt''))) offers
      else if sortBy = JStr ''oldest''
        then js_sort (\<lambda>a b. Inr (date_diff e (map_of a ''createdAt'') (map_of b ''createdAt''))) offers
      else if sortBy = JStr ''expiry''
        then js_sort (\<lambda>a b. Inr (date_diff e (map_of a ''validTo'') (map_of b ''validTo''))) offers
      else if sortBy = JStr ''views''
        then js_sort (\<lambda>a b. Inr (js_sub e (stat b ''views'') (stat a ''views''))) offers
      else if sortBy = JStr ''clicks''
        then js_sort (\<lambda>a b. Inr (js_sub e (stat b ''clicks'') (stat a ''clicks''))) offers
      else Inr offers)"

section \<open>Validation rules\<close>

text \<open>White space as \<^verbatim>\<open>trim\<close> and the regular-expression class \<^verbatim>\<open>\s\<close> see it.\<close>

definition is_space :: "char \<Rightarrow> bool" where
  "is_space c = ((of_char c :: nat) \<in> {9, 10, 11, 12, 13, 32, 160})"

definition trim :: "string \<Rightarrow> string" where
  "trim s = rev (dropWhile is_space (rev (dropWhile is_space s)))"

fun all_ok :: "(error + unit) list \<Rightarrow> error + unit" where
  "all_ok [] = Inr ()"
| "all_ok (c # cs) = (case c of Inl err \<Rightarrow> Inl err | Inr u \<Rightarrow> all_ok cs)"

text \<open>\<^verbatim>\<open>for (const field of requiredFields) if (!data[field]) throw ...\<close>\<close>

fun required_truthy :: "obj \<Rightarrow> string list \<Rightarrow> error + unit" where
  "required_truthy d [] = Inr ()"
| "required_truthy d (field # others) =
     (if \<not> truthy (map_of d field) then Inl (Error (field @ '' is required''))
      else required_truthy d others)"

text \<open>\<^verbatim>\<open>if (data[field] === undefined || data[field] === null) throw ...\<close>\<close>

fun required_present :: "obj \<Rightarrow> string list \<Rightarrow> error + unit" where
  "required_present d [] = Inr ()"
| "required_present d (field # others) =
     (if map_of d field = None \<or> map_of d field = Some JNull
      then Inl (Error (field @ '' is required''))
      else required_present d others)"

text \<open>
  \<^verbatim>\<open>if (v && v.trim().length < n) throw new Error(msg)\<close>: a truthy value that is not a
  string has no \<^verbatim>\<open>trim\<close>, and the call is a \<^verbatim>\<open>TypeError\<close>.
\<close>

fun min_length :: "jsval option \<Rightarrow> nat \<Rightarrow> string \<Rightarrow> error + unit" where
  "min_length (Some (JStr s)) n msg =
     (if truthy (Some (JStr s)) \<and> length (trim s) < n then Inl (Error msg) else Inr ())"
| "min_length v n msg = (if truthy v then Inl TypeError else Inr ())"

text \<open>\<^verbatim>\<open>/^[^\s@]+@[^\s@]+\.[^\s@]+$/.test(email)\<close>\<close>

definition email_char :: "char \<Rightarrow> bool" where
  "email_char c = (\<not> is_space c \<and> c \<noteq> CHR ''@'')"

definition email_regex :: "string \<Rightarrow> bool" where
  "email_regex s =
     (let name = takeWhile (\<lambda>c. c \<noteq> CHR ''@'') s;
          rest = dropWhile (\<lambda>c. c \<noteq> CHR ''@'') s
      in case rest of
           [] \<Rightarrow> False
         | a # host \<Rightarrow>
             name \<noteq> [] \<and> list_all email_char name \<and> list_all email_char host \<and>
             CHR ''.'' \<in> set (butlast (tl host)))"

definition isValidEmail :: "env \<Rightarrow> jsval option \<Rightarrow> bool" where
  "isValidEmail e email = email_regex (to_string e email)"

text \<open>\<^verbatim>\<open>/^[\+]?[1-9][\d]{0,15}$/.test(phone.replace(/[\s\-\(\)]/g, ''))\<close>\<close>

definition is_digit :: "char \<Rightarrow> bool" where
  "is_digit c = (48 \<le> (of_char c :: nat) \<and> (of_char c :: nat) \<le> 57)"

definition phone_regex :: "string \<Rightarrow> bool" where
  "phone_regex s =
     (case (case s of [] \<Rightarrow> [] | c # cs \<Rightarrow> if c = CHR ''+'' then cs else s) of
        [] \<Rightarrow> False
      | d # ds \<Rightarrow> is_digit d \<and> d \<noteq> CHR ''0'' \<and> length ds \<le> 15 \<and> list_all is_digit ds)"

fun isValidPhone :: "jsval option \<Rightarrow> error + bool" where
  "isValidPhone (Some (JStr s)) =
     Inr (phone_regex
            (filter (\<lambda>c. \<not> (is_space c \<or> c = CHR ''-'' \<or> c = CHR ''('' \<or> c = CHR '')'')) s))"
| "isValidPhone v = Inl TypeError"

definition validateShopData :: "env \<Rightarrow> obj \<Rightarrow> bool \<Rightarrow> error + unit" where
  "validateShopData e shopData isUpdate =
     (let floor = map_of shopData ''floor'';
          contact = map_of shopData ''contact'';
          email = member contact ''email'';
          phone = member contact ''phone''
      in all_ok
        [required_truthy shopData
           (if isUpdate then [] else [''name'', ''description'', ''category'', ''floor'', ''contact'']),
         min_length (map_of shopData ''name'') 2 ''Shop name must be at least 2 characters long'',
         min_length (map_of shopData ''description'') 10
           ''Shop description must be at least 10 characters long'',
         (if truthy floor \<and> (js_lt e floor (Some (JNum 1)) \<or> js_lt e (Some (JNum 10)) floor)
          then Inl (Error ''Floor must be between 1 and 10'') else Inr ()),
         (if truthy contact
          then all_ok
            [(if truthy email \<and> \<not> isValidEmail e email
              then Inl (Error ''Invalid email format'') else Inr ()),
             (if truthy phone
              then (case isValidPhone phone of
                      Inl err \<Rightarrow> Inl err
                    | Inr ok \<Rightarrow>
                        if ok then Inr () else Inl (Error ''Invalid phone number format''))
              else Inr ())]
          else Inr ())])"

text \<open>\<^verbatim>\<open>Number.isInteger(v)\<close>\<close>

fun isInteger :: "jsval option \<Rightarrow> bool" where
  "isInteger (Some (JNum r)) = (r = of_int \<lfloor>r\<rfloor>)"
| "isInteger v = False"

definition validateProductData :: "env \<Rightarrow> obj \<Rightarrow> bool \<Rightarrow> error + unit" where
  "validateProductData e productData isUpdate =
     (let price = map_of productData ''price'';
          stock = map_of productData ''stock''
      in all_ok
        [required_present productData
           (if isUpdate then []
            else [''name'', ''description'', ''price'', ''category'', ''shopId'', ''stock'']),
         min_length (map_of productData ''name'') 2
           ''Product name must be at least 2 characters long'',
         min_length (map_of productData ''description'') 10
           ''Product description must be at least 10 characters long'',
         (if price \<noteq> None \<and> (js_lt e price (Some (JNum 0)) \<or> to_number e price = None)
          then Inl (Error ''Price must be a valid positive number'') else Inr ()),
         (if stock \<noteq> None \<and> (js_lt e stock (Some (JNum 0)) \<or> \<not> isInteger stock)
          then Inl (Error ''Stock must be a valid non-negative integer'') else Inr ())])"

definition validateOfferData :: "env \<Rightarrow> obj \<Rightarrow> bool \<Rightarrow> error + unit" where
  "validateOfferData e offerData isUpdate =
     (let discount = map_of offerData ''discount'';
          validFrom = date_value e (map_of offerData ''validFrom'');
          validTo = date_value e (map_of offerData ''validTo'')
      in all_ok
        [required_truthy offerData
           (if isUpdate then []
            else [''title'', ''description'', ''discount'', ''shopId'', ''validFrom'', ''validTo'']),
         min_length (map_of offerData ''title'') 3
           ''Offer title must be at least 3 characters long'',
         min_length (map_of offerData ''description'') 10
           ''Offer description must be at least 10 characters long'',
         (if discount \<noteq> None \<and>
             (js_lt e discount (Some (JNum 0)) \<or> js_lt e (Some (JNum 100)) discount)
          then Inl (Error ''Discount must be between 0 and 100 percent'') else Inr ()),
         (if truthy (map_of offerData ''validFrom'') \<and> truthy (map_of offerData ''validTo'')
          then all_ok
            [(if num_le validTo validFrom
              then Inl (Error ''Valid from date must be before valid to date'') else Inr ()),
             (if num_le validTo (Some (now_ms e))
              then Inl (Error ''Valid to date must be in the future'') else Inr ())]
          else Inr ())])"

section \<open>Addition\<close>

text \<open>
  \<^verbatim>\<open>a + b\<close>: a string when either operand, made primitive, is a string, and a number
  otherwise, the exact sum rounded to a double. \<open>add_to\<close> is the same operation with a
  left operand that is itself the result of an addition, as in
  \<^verbatim>\<open>reduce((sum, p) => sum + p.price, 0)\<close>.
\<close>

datatype sum_val = SNum "rat option" | SStr string

definition num_add :: "env \<Rightarrow> rat option \<Rightarrow> rat option \<Rightarrow> rat option" where
  "num_add e x y =
     (case (x, y) of (Some a, Some b) \<Rightarrow> Some (round_double e (a + b)) | _ \<Rightarrow> None)"

definition num_string :: "env \<Rightarrow> rat option \<Rightarrow> string" where
  "num_string e n = (case n of Some r \<Rightarrow> string_of e (JNum r) | None \<Rightarrow> ''NaN'')"

definition js_add :: "env \<Rightarrow> jsval option \<Rightarrow> jsval option \<Rightarrow> sum_val" where
  "js_add e a b =
     (let pa = to_primitive e a; pb = to_primitive e b
      in if is_string pa \<or> is_string pb then SStr (to_string e pa @ to_string e pb)
         else SNum (num_add e (to_number e pa) (to_number e pb)))"

definition add_to :: "env \<Rightarrow> sum_val \<Rightarrow> jsval option \<Rightarrow> sum_val" where
  "add_to e acc b =
     (let pb = to_primitive e b
      in case acc of
           SStr s \<Rightarrow> SStr (s @ to_string e pb)
         | SNum n \<Rightarrow>
             if is_string pb then SStr (num_string e n @ to_string e pb)
             else SNum (num_add e n (to_number e pb)))"

text \<open>The value as it is stored: \<^verbatim>\<open>JSON.stringify\<close> writes \<^verbatim>\<open>NaN\<close> as \<^verbatim>\<open>null\<close>.\<close>

definition json_of :: "sum_val \<Rightarrow> jsval" where
  "json_of v = (case v of SNum (Some r) \<Rightarrow> JNum r | SNum None \<Rightarrow> JNull | SStr s \<Rightarrow> JStr s)"

definition sum_number :: "env \<Rightarrow> sum_val \<Rightarrow> rat option" where
  "sum_number e v = (case v of SNum n \<Rightarrow> n | SStr s \<Rightarrow> number_of_string e s)"

section \<open>Catalog services\<close>

definition getCurrentUserId :: "store \<Rightarrow> jsval" where
  "getCurrentUserId s = or_else (member (current_user s) ''uid'') (JStr ''anonymous'')"

subsection \<open>ShopService\<close>

definition createShop :: "env \<Rightarrow> obj \<Rightarrow> store \<Rightarrow> (error + string) \<times> store" where
  "createShop e shopData s =
     (case validateShopData e shopData False of
        Inl err \<Rightarrow> (Inl err, s)
      | Inr u \<Rightarrow>
          (let (shopId, s') =
             create e Shops
               (AList.update ''stats''
                  (JObj [(''totalProducts'', JNum 0), (''totalOffers'', JNum 0),
                         (''views'', JNum 0), (''rating'', JNum 0), (''reviews'', JNum 0)])
                  (AList.update ''createdBy'' (getCurrentUserId s)
                     (AList.update ''isActive'' (JBool True) shopData))) s
           in (Inr shopId, s')))"

text \<open>
  \<^verbatim>\<open>{...filters, isActive: filters.includeInactive ? undefined : true}\<close>, the object
  that each \<^verbatim>\<open>get*\<close> passes to \<open>query\<close>.
\<close>

definition query_filters :: "filters \<Rightarrow> filters" where
  "query_filters f =
     AList.update ''isActive''
       (if truthy (lookup f ''includeInactive'') then None else Some (JBool True)) f"

definition getShops :: "env \<Rightarrow> filters \<Rightarrow> store \<Rightarrow> error + obj list" where
  "getShops e f s =
     (let shops = query e Shops (query_filters f) s
      in sortShops e shops (or_else (lookup f ''sortBy'') (JStr ''name'')))"

text \<open>
  The failure of the update inside \<^verbatim>\<open>incrementShopViews\<close> is caught and logged; the
  store is then the one before the call.
\<close>

definition incrementShopViews :: "env \<Rightarrow> string \<Rightarrow> store \<Rightarrow> store" where
  "incrementShopViews e shopId s =
     (let shop = read Shops (Some shopId) s
      in if truthy (Some shop)
         then (let currentViews = or_else (member (member (Some shop) ''stats'') ''views'') (JNum 0)
               in snd (update e Shops shopId
                         [(''stats.views'', json_of (js_add e (Some currentViews) (Some (JNum 1)))),
                          (''stats.lastViewed'', JStr (now_iso e))] s))
         else s)"

definition getShopById :: "env \<Rightarrow> string \<Rightarrow> store \<Rightarrow> (error + jsval) \<times> store" where
  "getShopById e shopId s =
     (let shop = read Shops (Some shopId) s
      in if \<not> truthy (Some shop) then (Inl (Error ''Shop not found''), s)
         else (Inr shop, incrementShopViews e shopId s))"

definition deleteShop :: "env \<Rightarrow> string \<Rightarrow> store \<Rightarrow> (error + unit) \<times> store" where
  "deleteShop e shopId s =
     (let products = query e Products [(''shopId'', Some (JStr shopId))] s
      in if length products > 0
         then (Inl (Error
                 ''Cannot delete shop with existing products. Please remove all products first.''),
               s)
         else update e Shops shopId
                [(''isActive'', JBool False), (''deletedAt'', JStr (now_iso e)),
                 (''deletedBy'', getCurrentUserId s)] s)"

subsection \<open>ProductService\<close>

definition createProduct :: "env \<Rightarrow> obj \<Rightarrow> store \<Rightarrow> (error + string) \<times> store" where
  "createProduct e productData s =
     (case validateProductData e productData False of
        Inl err \<Rightarrow> (Inl err, s)
      | Inr u \<Rightarrow>
          (let (productId, s') =
             create e Products
               (AList.update ''stats''
                  (JObj [(''views'', JNum 0), (''purchases'', JNum 0),
                         (''rating'', JNum 0), (''reviews'', JNum 0)])
                  (AList.update ''createdBy'' (getCurrentUserId s)
                     (AList.update ''isActive'' (JBool True) productData))) s
           in (Inr productId, s')))"

definition getProducts :: "env \<Rightarrow> filters \<Rightarrow> store \<Rightarrow> error + obj list" where
  "getProducts e f s =
     (let products = query e Products (query_filters f) s
      in sortProducts e products (or_else (lookup f ''sortBy'') (JStr ''name'')))"

definition incrementProductViews :: "env \<Rightarrow> string \<Rightarrow> store \<Rightarrow> store" where
  "incrementProductViews e productId s =
     (let product = read Products (Some productId) s
      in if truthy (Some product)
         then (let currentViews =
                     or_else (member (member (Some product) ''stats'') ''views'') (JNum 0)
               in snd (update e Products productId
                         [(''stats.views'', json_of (js_add e (Some currentViews) (Some (JNum 1)))),
                          (''stats.lastViewed'', JStr (now_iso e))] s))
         else s)"

definition getProductById :: "env \<Rightarrow> string \<Rightarrow> store \<Rightarrow> (error + jsval) \<times> store" where
  "getProductById e productId s =
     (let product = read Products (Some productId) s
      in if \<not> truthy (Some product) then (Inl (Error ''Product not found''), s)
         else (Inr product, incrementProductViews e productId s))"

definition deleteProduct :: "env \<Rightarrow> string \<Rightarrow> store \<Rightarrow> (error + unit) \<times> store" where
  "deleteProduct e productId s =
     update e Products productId
       [(''isActive'', JBool False), (''deletedAt'', JStr (now_iso e)),
        (''deletedBy'', getCurrentUserId s)] s"

subsection \<open>OfferService\<close>

definition createOffer :: "env \<Rightarrow> obj \<Rightarrow> store \<Rightarrow> (error + string) \<times> store" where
  "createOffer e offerData s =
     (case validateOfferData e offerData False of
        Inl err \<Rightarrow> (Inl err, s)
      | Inr u \<Rightarrow>
          (let (offerId, s') =
             create e Offers
               (AList.update ''stats''
                  (JObj [(''views'', JNum 0), (''clicks'', JNum 0), (''conversions'', JNum 0)])
                  (AList.update ''createdBy'' (getCurrentUserId s)
                     (AList.update ''isActive'' (JBool True) offerData))) s
           in (Inr offerId, s')))"

text \<open>\<^verbatim>\<open>now >= validFrom && now <= validTo\<close> on the dates of one offer.\<close>

definition in_window :: "env \<Rightarrow> obj \<Rightarrow> bool" where
  "in_window e offer =
     (num_le (date_value e (map_of offer ''validFrom'')) (Some (now_ms e)) \<and>
      num_le (Some (now_ms e)) (date_value e (map_of offer ''validTo'')))"

definition getOffers :: "env \<Rightarrow> filters \<Rightarrow> store \<Rightarrow> error + obj list" where
  "getOffers e f s =
     (let offers = query e Offers (query_filters f) s;
          validOffers = (if truthy (lookup f ''includeExpired'') then offers
                         else filter (in_window e) offers)
      in sortOffers e validOffers (or_else (lookup f ''sortBy'') (JStr ''newest'')))"

definition deleteOffer :: "env \<Rightarrow> string \<Rightarrow> store \<Rightarrow> (error + unit) \<times> store" where
  "deleteOffer e offerId s =
     update e Offers offerId
       [(''isActive'', JBool False), (''deletedAt'', JStr (now_iso e)),
        (''deletedBy'', getCurrentUserId s)] s"

definition getExpiredOffers :: "env \<Rightarrow> store \<Rightarrow> error + obj list" where
  "getExpiredOffers e s =
     (case getOffers e [(''includeExpired'', Some (JBool True))] s of
        Inl err \<Rightarrow> Inl err
      | Inr allOffers \<Rightarrow>
          Inr (filter (\<lambda>offer. num_lt (date_value e (map_of offer ''validTo'')) (Some (now_ms e)))
                 allOffers))"

subsection \<open>Product comparison\<close>

text \<open>
  The accumulator of \<^verbatim>\<open>extractCommonFeatures\<close> is a plain object literal, so
  \<^verbatim>\<open>acc[key]\<close> also finds what \<^verbatim>\<open>Object.prototype\<close> carries under these names: a
  function or an object, truthy and without \<^verbatim>\<open>push\<close>.
\<close>

definition object_prototype_keys :: "string list" where
  "object_prototype_keys =
     [''constructor'', ''__defineGetter__'', ''__defineSetter__'', ''hasOwnProperty'',
      ''__lookupGetter__'', ''__lookupSetter__'', ''isPrototypeOf'', ''propertyIsEnumerable'',
      ''toString'', ''valueOf'', ''__proto__'', ''toLocaleString'']"

fun digits :: "nat \<Rightarrow> string" where
  "digits n =
     (if n < 10 then [char_of (48 + n)] else digits (n div 10) @ [char_of (48 + n mod 10)])"

text \<open>
  \<^verbatim>\<open>Object.keys(v)\<close> with \<^verbatim>\<open>v[key]\<close> for each key: the entries of an object, the
  indexed elements of an array, the indexed characters of a string, nothing for a number
  or a boolean.
\<close>

fun own_entries :: "jsval \<Rightarrow> (string \<times> jsval) list" where
  "own_entries (JObj kvs) = kvs"
| "own_entries (JArr xs) = zip (map digits [0..<length xs]) xs"
| "own_entries (JStr cs) = zip (map digits [0..<length cs]) (map (\<lambda>c. JStr [c]) cs)"
| "own_entries v = []"

record feature =
  productId :: "jsval option"
  productName :: "jsval option"
  val :: jsval

type_synonym features = "(string \<times> feature list) list"

text \<open>
  \<^verbatim>\<open>if (!acc[key]) acc[key] = []; acc[key].push({...})\<close> for one key of one product.
\<close>

definition add_feature :: "jsval \<Rightarrow> string \<times> jsval \<Rightarrow> features \<Rightarrow> error + features" where
  "add_feature product kv acc =
     (let entry = \<lparr>productId = member (Some product) ''id'',
                   productName = member (Some product) ''name'', val = snd kv\<rparr>
      in case map_of acc (fst kv) of
           Some entries \<Rightarrow> Inr (AList.update (fst kv) (entries @ [entry]) acc)
         | None \<Rightarrow>
             if fst kv \<in> set object_prototype_keys then Inl TypeError
             else Inr (acc @ [(fst kv, [entry])]))"

fun fold_err :: "('a \<Rightarrow> 'b \<Rightarrow> error + 'b) \<Rightarrow> 'a list \<Rightarrow> 'b \<Rightarrow> error + 'b" where
  "fold_err f [] acc = Inr acc"
| "fold_err f (x # xs) acc = (case f x acc of Inl err \<Rightarrow> Inl err | Inr acc' \<Rightarrow> fold_err f xs acc')"

definition add_product :: "jsval \<Rightarrow> features \<Rightarrow> error + features" where
  "add_product product acc =
     (case member (Some product) ''specifications'' of
        None \<Rightarrow> Inr acc
      | Some specs \<Rightarrow>
          if truthy (Some specs) then fold_err (add_feature product) (own_entries specs) acc
          else Inr acc)"

definition extractCommonFeatures :: "jsval list \<Rightarrow> error + features" where
  "extractCommonFeatures products =
     (case fold_err add_product products [] of
        Inl err \<Rightarrow> Inl err
      | Inr allFeatures \<Rightarrow> Inr (filter (\<lambda>(key, entries). length entries \<ge> 2) allFeatures))"

text \<open>\<^verbatim>\<open>Math.min(x, ...xs)\<close> and \<^verbatim>\<open>Math.max(x, ...xs)\<close> on converted arguments.\<close>

fun math_min :: "rat option \<Rightarrow> rat option list \<Rightarrow> rat option" where
  "math_min x [] = x"
| "math_min x (y # ys) =
     math_min (case (x, y) of (Some a, Some b) \<Rightarrow> Some (min a b) | _ \<Rightarrow> None) ys"

fun math_max :: "rat option \<Rightarrow> rat option list \<Rightarrow> rat option" where
  "math_max x [] = x"
| "math_max x (y # ys) =
     math_max (case (x, y) of (Some a, Some b) \<Rightarrow> Some (max a b) | _ \<Rightarrow> None) ys"

text \<open>\<^verbatim>\<open>[...new Set(xs)]\<close>\<close>

definition uniq :: "jsval option list \<Rightarrow> jsval option list" where
  "uniq xs = fold (\<lambda>x acc. if list_ex (strict_eq x) acc then acc else acc @ [x]) xs []"

record priceRange =
  pmin :: "rat option"
  pmax :: "rat option"
  average :: "rat option"

record comparison =
  products :: "jsval list"
  price_range :: priceRange
  common_features :: features
  categories :: "jsval option list"
  shops :: "jsval option list"
  inStock :: nat
  outOfStock :: nat
  comparedAt :: string
  comparedBy :: jsval

definition price :: "jsval \<Rightarrow> jsval option" where
  "price p = member (Some p) ''price''"

definition stock :: "jsval \<Rightarrow> jsval option" where
  "stock p = member (Some p) ''stock''"

text \<open>\<^verbatim>\<open>x / n\<close> for a count \<open>n\<close> that is not zero: the exact quotient rounded to a double.\<close>

definition num_div :: "env \<Rightarrow> rat option \<Rightarrow> rat \<Rightarrow> rat option" where
  "num_div e x n = (case x of Some a \<Rightarrow> Some (round_double e (a / n)) | None \<Rightarrow> None)"

text \<open>
  The second length check of \<^verbatim>\<open>compareProducts\<close> is the pattern match on two leading
  elements; past it \<^verbatim>\<open>Math.min\<close> and the division have at least two products.
\<close>

definition compareProducts :: "env \<Rightarrow> string list \<Rightarrow> store \<Rightarrow> error + comparison" where
  "compareProducts e productIds s =
     (if length productIds < 2
        then Inl (Error ''At least 2 products are required for comparison'')
      else if length productIds > 4
        then Inl (Error ''Maximum 4 products can be compared at once'')
      else
        (let validProducts =
               filter (\<lambda>p. p \<noteq> JNull) (map (\<lambda>i. read Products (Some i) s) productIds)
         in case validProducts of
              p1 # p2 # ps \<Rightarrow>
                (case extractCommonFeatures validProducts of
                   Inl err \<Rightarrow> Inl err
                 | Inr fs \<Rightarrow>
                     Inr \<lparr>products = validProducts,
                          price_range =
                            \<lparr>pmin = math_min (to_number e (price p1))
                                      (map (\<lambda>p. to_number e (price p)) (p2 # ps)),
                             pmax = math_max (to_number e (price p1))
                                      (map (\<lambda>p. to_number e (price p)) (p2 # ps)),
                             average =
                               num_div e
                                 (sum_number e
                                    (fold (\<lambda>p acc. add_to e acc (price p)) validProducts
                                       (SNum (Some 0))))
                                 (of_nat (length validProducts))\<rparr>,
                          common_features = fs,
                          categories = uniq (map (\<lambda>p. member (Some p) ''category'') validProducts),
                          shops = uniq (map (\<lambda>p. member (Some p) ''shopId'') validProducts),
                          inStock =
                            length (filter (\<lambda>p. js_lt e (Some (JNum 0)) (stock p)) validProducts),
                          outOfStock =
                            length (filter (\<lambda>p. strict_eq (stock p) (Some (JNum 0))) validProducts),
                          comparedAt = now_iso e,
                          comparedBy = getCurrentUserId s\<rparr>)
            | _ \<Rightarrow> Inl (Error ''At least 2 valid products are required for comparison'')))"

section \<open>The comparison in the words of the specification\<close>

text \<open>
  The products that the identifiers resolve to, in the order of the identifiers.
\<close>

definition resolved :: "string list \<Rightarrow> store \<Rightarrow> obj list" where
  "resolved ids s = List.map_filter (\<lambda>i. find (has_id i) (items_of s Products)) ids"

text \<open>
  The specification entries of a product that \<^verbatim>\<open>extractCommonFeatures\<close> walks through,
  and the pair of product and value that it records for one of them.
\<close>

definition spec_entries :: "jsval \<Rightarrow> (string \<times> jsval) list" where
  "spec_entries p =
     (case member (Some p) ''specifications'' of
        None \<Rightarrow> []
      | Some specs \<Rightarrow> if truthy (Some specs) then own_entries specs else [])"

definition feature_of :: "jsval \<Rightarrow> jsval \<Rightarrow> feature" where
  "feature_of p v =
     \<lparr>productId = member (Some p) ''id'', productName = member (Some p) ''name'', val = v\<rparr>"

text \<open>The (product, value) pairs of the products that carry the key \<open>k\<close>.\<close>

definition carriers :: "string \<Rightarrow> jsval list \<Rightarrow> feature list" where
  "carriers k ps =
     concat (map (\<lambda>p. case map_of (spec_entries p) k of
                         None \<Rightarrow> []
                       | Some v \<Rightarrow> [feature_of p v]) ps)"

fun is_number :: "jsval option \<Rightarrow> bool" where
  "is_number (Some (JNum x)) = True"
| "is_number v = False"

fun num_of :: "jsval option \<Rightarrow> rat" where
  "num_of (Some (JNum x)) = x"
| "num_of v = 0"

text \<open>
  A product record as the data model describes it: price and stock are numbers,
  category and shop reference are strings, and the specification is a mapping whose
  attribute names are pairwise different and none of them a property name of
  \<^verbatim>\<open>Object.prototype\<close>.
\<close>

definition typed_product :: "obj \<Rightarrow> bool" where
  "typed_product r =
     (is_number (map_of r ''price'') \<and> is_number (map_of r ''stock'') \<and>
      is_string (map_of r ''category'') \<and> is_string (map_of r ''shopId'') \<and>
      distinct (map fst (spec_entries (JObj r))) \<and>
      list_all (\<lambda>k. k \<notin> set object_prototype_keys) (map fst (spec_entries (JObj r))))"

text \<open>
  Two readings of the accumulator of \<^verbatim>\<open>extractCommonFeatures\<close> used in the proofs: the
  list recorded under a key, and its shape (one entry per key, no empty list).
\<close>

definition entries_of :: "features \<Rightarrow> string \<Rightarrow> feature list" where
  "entries_of acc k = (case map_of acc k of None \<Rightarrow> [] | Some es \<Rightarrow> es)"

definition acc_ok :: "features \<Rightarrow> bool" where
  "acc_ok acc = (distinct (map fst acc) \<and> list_all (\<lambda>kv. snd kv \<noteq> []) acc)"

section \<open>Example states\<close>

text \<open>
  Concrete inputs for the evaluations below: an environment whose clock stands at the
  first instant of 2026, and a store shaped like the demo data that
  \<^verbatim>\<open>initializeDemoData\<close> seeds. The sums and quotients stated below are whole numbers,
  which are doubles as they are, so the rounding of the example environment is the
  identity; the price 29.99 of the demo data stands for the double nearest to it.
\<close>

definition example_dates :: "jsval option \<Rightarrow> rat option" where
  "example_dates v =
     (if v = Some (JStr ''2019-01-01T00:00:00.000Z'') then Some 1546300800000
      else if v = Some (JStr ''2020-01-01T00:00:00.000Z'') then Some 1577836800000
      else if v = Some (JStr ''2026-01-01T00:00:00.000Z'') then Some 1767225600000
      else if v = Some (JStr ''2030-01-01T00:00:00.000Z'') then Some 1893456000000
      else None)"

definition example_env :: env where
  "example_env =
     \<lparr>now_ms = 1767225600000, now_iso = ''2026-01-01T00:00:00.000Z'', new_id = ''mjv8k2a0x7'',
      date_value = example_dates, number_of_string = (\<lambda>s. None), string_of = (\<lambda>v. ''?''),
      locale_compare = (\<lambda>a b. if str_less a b then - 1 else if str_less b a then 1 else 0),
      round_double = (\<lambda>x. x)\<rparr>"

definition shop1 :: obj where
  "shop1 =
     [(''id'', JStr ''1''), (''name'', JStr ''Rural Electronics Hub''),
      (''description'', JStr ''Best electronic devices from rural manufacturers''),
      (''category'', JStr ''Electronics''), (''floor'', JNum 1),
      (''contact'', JObj [(''phone'', JStr ''+1-555-0123''),
                          (''email'', JStr ''info@ruralelectronics.com'')]),
      (''isActive'', JBool True), (''createdAt'', JStr ''2020-01-01T00:00:00.000Z''),
      (''stats'', JObj [(''views'', JNum 5), (''rating'', JNum 0), (''reviews'', JNum 0)])]"

definition shop2 :: obj where
  "shop2 =
     [(''id'', JStr ''2''), (''name'', JStr ''Village Textiles''),
      (''description'', JStr ''Handwoven textiles and traditional clothing''),
      (''category'', JStr ''Clothing''), (''floor'', JNum 2),
      (''contact'', JObj [(''phone'', JStr ''+1-555-0456''),
                          (''email'', JStr ''orders@villagetextiles.com'')]),
      (''isActive'', JBool True), (''createdAt'', JStr ''2020-01-01T00:00:00.000Z'')]"

definition product1 :: obj where
  "product1 =
     [(''id'', JStr ''1''), (''name'', JStr ''Organic Smartphone Case''),
      (''description'', JStr ''Eco-friendly smartphone case made from bamboo fiber''),
      (''price'', JNum (2999 / 100)), (''category'', JStr ''Electronics''),
      (''shopId'', JStr ''1''),
      (''specifications'', JObj [(''Material'', JStr ''Bamboo Fiber''),
                                 (''Compatibility'', JStr ''iPhone/Android''),
                                 (''Weight'', JStr ''50g'')]),
      (''stock'', JNum 50), (''isActive'', JBool True),
      (''createdAt'', JStr ''2019-01-01T00:00:00.000Z'')]"

definition product2 :: obj where
  "product2 =
     [(''id'', JStr ''2''), (''name'', JStr ''Handwoven Cotton Shirt''),
      (''description'', JStr ''Traditional handwoven cotton shirt with modern design''),
      (''price'', JNum 45), (''category'', JStr ''Clothing''),
      (''shopId'', JStr ''1''),
      (''specifications'', JObj [(''Material'', JStr ''100% Cotton''),
                                 (''Size'', JStr ''M/L/XL''),
                                 (''Care'', JStr ''Hand Wash'')]),
      (''stock'', JNum 0), (''isActive'', JBool True),
      (''createdAt'', JStr ''2020-01-01T00:00:00.000Z'')]"

text \<open>An offer whose validity window closed at the start of 2020.\<close>

definition offer1 :: obj where
  "offer1 =
     [(''id'', JStr ''1''), (''title'', JStr ''Summer Sale - Electronics''),
      (''description'', JStr ''20% off on all electronic items''),
      (''discount'', JNum 20), (''shopId'', JStr ''1''),
      (''productIds'', JArr [JStr ''1'']),
      (''validFrom'', JStr ''2019-01-01T00:00:00.000Z''),
      (''validTo'', JStr ''2020-01-01T00:00:00.000Z''),
      (''isActive'', JBool True), (''createdAt'', JStr ''2019-01-01T00:00:00.000Z'')]"

text \<open>An offer that is valid at the example clock.\<close>

definition offer2 :: obj where
  "offer2 =
     [(''id'', JStr ''2''), (''title'', JStr ''Textile Week''),
      (''description'', JStr ''10% off on handwoven textiles''),
      (''discount'', JNum 10), (''shopId'', JStr ''2''),
      (''validFrom'', JStr ''2020-01-01T00:00:00.000Z''),
      (''validTo'', JStr ''2030-01-01T00:00:00.000Z''),
      (''isActive'', JBool True), (''createdAt'', JStr ''2020-01-01T00:00:00.000Z'')]"

definition example_store :: store where
  "example_store =
     \<lparr>items_of = (\<lambda>c. [])(Shops := [shop1, shop2], Products := [product1, product2],
                             Offers := [offer1, offer2]),
      current_user = Some (JObj [(''uid'', JStr ''u42''), (''role'', JStr ''admin'')])\<rparr>"

text \<open>A shop payload that names every field the create path sets itself.\<close>

definition forged_shop :: obj where
  "forged_shop =
     [(''id'', JStr ''1''), (''name'', JStr ''Corner Bakery''),
      (''description'', JStr ''Fresh bread baked every morning''),
      (''category'', JStr ''Food & Beverages''), (''floor'', JNum 3),
      (''contact'', JObj [(''phone'', JStr ''+1-555-0789''), (''email'', JStr ''hello@bakery.com'')]),
      (''createdAt'', JStr ''2019-01-01T00:00:00.000Z''), (''isActive'', JBool False),
      (''createdBy'', JStr ''root''), (''stats'', JObj [(''views'', JNum 1000000)])]"

definition new_product :: obj where
  "new_product =
     [(''name'', JStr ''Clay Water Pot''),
      (''description'', JStr ''Hand-thrown clay pot that keeps water cool''),
      (''price'', JNum (25 / 2)), (''category'', JStr ''Home''), (''shopId'', JStr ''2''),
      (''stock'', JNum 7), (''color'', JStr ''terracotta'')]"

text \<open>An offer payload with a discount of zero and no title.\<close>

definition untitled_offer :: obj where
  "untitled_offer =
     [(''description'', JStr ''Discounts on all winter clothing''),
      (''discount'', JNum 0), (''shopId'', JStr ''2''),
      (''validFrom'', JStr ''2020-01-01T00:00:00.000Z''),
      (''validTo'', JStr ''2030-01-01T00:00:00.000Z'')]"

definition new_offer :: obj where
  "new_offer =
     [(''title'', JStr ''Winter Sale''),
      (''description'', JStr ''Discounts on all winter clothing''),
      (''discount'', JNum 20), (''shopId'', JStr ''2''),
      (''validFrom'', JStr ''2020-01-01T00:00:00.000Z''),
      (''validTo'', JStr ''2030-01-01T00:00:00.000Z'')]"

text \<open>
  Products that carry a property named \<open>sortBy\<close>, for a store on which the sorted
  listings are not empty.
\<close>

definition tagged :: "string \<Rightarrow> obj \<Rightarrow> obj" where
  "tagged t p = AList.update ''sortBy'' (JStr t) p"

definition tagged_store :: store where
  "tagged_store =
     set_items Products
       [tagged ''price_low'' product2, tagged ''price_low'' product1,
        tagged ''newest'' product1, tagged ''newest'' product2] example_store"

text \<open>
  Products that carry the property \<open>sortBy\<close> and are as two calls of the service leave
  them: \<^verbatim>\<open>updateProduct(id, {price: undefined})\<close> passes the validator, which skips an
  undefined price, and the merged record is stored without a price; likewise for
  \<open>createdAt\<close>.
\<close>

definition clay_pot :: obj where
  "clay_pot =
     [(''id'', JStr ''3''), (''name'', JStr ''Clay Water Pot''), (''price'', JNum 3),
      (''isActive'', JBool True), (''createdAt'', JStr ''2019-01-01T00:00:00.000Z''),
      (''sortBy'', JStr ''price_low'')]"

definition unpriced_basket :: obj where
  "unpriced_basket =
     [(''id'', JStr ''4''), (''name'', JStr ''Bamboo Basket''),
      (''isActive'', JBool True), (''createdAt'', JStr ''2019-01-01T00:00:00.000Z''),
      (''sortBy'', JStr ''price_low'')]"

definition tea_cup :: obj where
  "tea_cup =
     [(''id'', JStr ''5''), (''name'', JStr ''Tea Cup''), (''price'', JNum 1),
      (''isActive'', JBool True), (''createdAt'', JStr ''2019-01-01T00:00:00.000Z''),
      (''sortBy'', JStr ''price_low'')]"

definition old_lamp :: obj where
  "old_lamp =
     [(''id'', JStr ''6''), (''name'', JStr ''Oil Lamp''), (''price'', JNum 8),
      (''isActive'', JBool True), (''createdAt'', JStr ''2019-01-01T00:00:00.000Z''),
      (''sortBy'', JStr ''newest'')]"

definition undated_mat :: obj where
  "undated_mat =
     [(''id'', JStr ''7''), (''name'', JStr ''Reed Mat''), (''price'', JNum 8),
      (''isActive'', JBool True), (''sortBy'', JStr ''newest'')]"

definition new_stool :: obj where
  "new_stool =
     [(''id'', JStr ''8''), (''name'', JStr ''Wooden Stool''), (''price'', JNum 8),
      (''isActive'', JBool True), (''createdAt'', JStr ''2020-01-01T00:00:00.000Z''),
      (''sortBy'', JStr ''newest'')]"

definition gap_store :: store where
  "gap_store =
     set_items Products
       [clay_pot, unpriced_basket, tea_cup, old_lamp, undated_mat, new_stool] example_store"

text \<open>
  A price that is the string \<open>45\<close>, which the product validator accepts (\<^verbatim>\<open>'45' < 0\<close> and
  \<^verbatim>\<open>isNaN('45')\<close> are both false), and an environment that converts the strings and
  numbers met when such a price is added up.
\<close>

definition string_env :: env where
  "string_env =
     example_env
       \<lparr>number_of_string :=
          (\<lambda>s. if s = ''45'' then Some 45 else if s = ''04530'' then Some 4530 else None),
        string_of := (\<lambda>v. if v = JNum 0 then ''0'' else if v = JNum 30 then ''30'' else ''?'')\<rparr>"

definition string_priced :: obj where
  "string_priced =
     [(''name'', JStr ''Handwoven Cotton Shirt''),
      (''description'', JStr ''Traditional handwoven cotton shirt with modern design''),
      (''price'', JStr ''45''), (''category'', JStr ''Clothing''), (''shopId'', JStr ''1''),
      (''stock'', JNum 0)]"

definition linen_scarf :: obj where
  "linen_scarf =
     [(''id'', JStr ''9''), (''name'', JStr ''Linen Scarf''),
      (''description'', JStr ''Light scarf woven from local linen''),
      (''price'', JNum 30), (''category'', JStr ''Clothing''), (''shopId'', JStr ''1''),
      (''stock'', JNum 4), (''isActive'', JBool True),
      (''createdAt'', JStr ''2020-01-01T00:00:00.000Z'')]"

definition scarf_store :: store where
  "scarf_store = set_items Products [linen_scarf] example_store"

section \<open>Auxiliary facts\<close>

lemma items_of_set_items [simp]:
  "items_of (set_items c xs s) c' = (if c' = c then xs else items_of s c')"
  by (simp add: set_items_def)

lemma current_user_set_items [simp]: "current_user (set_items c xs s) = current_user s"
  by (simp add: set_items_def)

lemma create_eq:
  "create e c data s =
     (new_id e,
      set_items c
        (items_of s c @
           [AList.update ''createdAt'' (JStr (now_iso e))
              (AList.update ''id'' (JStr (new_id e)) data)]) s)"
  by (simp add: create_def Let_def)

lemma all_ok_Cons_iff: "all_ok (c # cs) = Inr () \<longleftrightarrow> c = Inr () \<and> all_ok cs = Inr ()"
  by (cases c) auto

lemma required_truthy_update:
  "truthy (Some v) \<Longrightarrow> required_truthy X fs = Inr () \<Longrightarrow>
   required_truthy (AList.update k v X) fs = Inr ()"
  by (induction fs) (auto simp: update_conv' split: if_splits)

lemma js_lt_num: "js_lt e (Some (JNum a)) (Some (JNum b)) = (a < b)"
  by (simp add: js_lt_def num_lt_def)

lemma forged_shop_valid: "validateShopData example_env forged_shop False = Inr ()"
  by code_simp

lemma new_product_valid: "validateProductData example_env new_product False = Inr ()"
  by code_simp

lemma new_offer_valid: "validateOfferData example_env new_offer False = Inr ()"
  by code_simp

text \<open>
  Replacing the discount of a valid offer payload by a non-zero number leaves every
  check but the range check as it was.
\<close>

lemma validateOffer_discount:
  assumes "validateOfferData e X False = Inr ()" and "d \<noteq> 0"
  shows "validateOfferData e (AList.update ''discount'' (JNum d) X) False =
           (if d < 0 \<or> 100 < d
            then Inl (Error ''Discount must be between 0 and 100 percent'') else Inr ())"
proof -
  let ?fs = "[''title'', ''description'', ''discount'', ''shopId'', ''validFrom'', ''validTo'']"
  let ?X' = "AList.update ''discount'' (JNum d) X"
  from assms(1) have r: "required_truthy X ?fs = Inr ()"
    and t: "min_length (map_of X ''title'') 3
              ''Offer title must be at least 3 characters long'' = Inr ()"
    and ds: "min_length (map_of X ''description'') 10
              ''Offer description must be at least 10 characters long'' = Inr ()"
    and w: "(if truthy (map_of X ''validFrom'') \<and> truthy (map_of X ''validTo'')
          then all_ok
            [(if num_le (date_value e (map_of X ''validTo'')) (date_value e (map_of X ''validFrom''))
              then Inl (Error ''Valid from date must be before valid to date'') else Inr ()),
             (if num_le (date_value e (map_of X ''validTo'')) (Some (now_ms e))
              then Inl (Error ''Valid to date must be in the future'') else Inr ())]
          else Inr ()) = Inr ()"
    unfolding validateOfferData_def Let_def
    by (simp_all add: all_ok_Cons_iff del: all_ok.simps(2) required_truthy.simps)
  from assms(2) have "truthy (Some (JNum d))" by simp
  from required_truthy_update[OF this r] have r': "required_truthy ?X' ?fs = Inr ()" .
  show ?thesis
    unfolding validateOfferData_def Let_def
    using w
    by (auto simp add: update_conv' r' t ds js_lt_num simp del: required_truthy.simps
          split: if_splits)
qed

lemma required_present_update:
  "v \<noteq> JNull \<Longrightarrow> required_present X fs = Inr () \<Longrightarrow>
   required_present (AList.update k v X) fs = Inr ()"
  by (induction fs) (auto simp: update_conv' split: if_splits)

text \<open>A valid product payload stays valid when its price and stock are set to zero.\<close>

lemma validateProduct_zero:
  assumes "validateProductData e P False = Inr ()"
  shows "validateProductData e
           (AList.update ''stock'' (JNum 0) (AList.update ''price'' (JNum 0) P)) False = Inr ()"
proof -
  let ?fs = "[''name'', ''description'', ''price'', ''category'', ''shopId'', ''stock'']"
  from assms have r: "required_present P ?fs = Inr ()"
    and t: "min_length (map_of P ''name'') 2
              ''Product name must be at least 2 characters long'' = Inr ()"
    and ds: "min_length (map_of P ''description'') 10
              ''Product description must be at least 10 characters long'' = Inr ()"
    unfolding validateProductData_def Let_def
    by (simp_all add: all_ok_Cons_iff del: all_ok.simps(2) required_present.simps)
  have r': "required_present
              (AList.update ''stock'' (JNum 0) (AList.update ''price'' (JNum 0) P)) ?fs = Inr ()"
    by (intro required_present_update r) simp_all
  show ?thesis
    unfolding validateProductData_def Let_def
    by (simp add: update_conv' r' t ds js_lt_num del: required_present.simps)
qed

lemma required_discount_zero:
  assumes "map_of X ''discount'' = Some (JNum 0)"
  shows "required_truthy X
           [''title'', ''description'', ''discount'', ''shopId'', ''validFrom'', ''validTo''] =
         (if \<not> truthy (map_of X ''title'') then Inl (Error ''title is required'')
          else if \<not> truthy (map_of X ''description'')
            then Inl (Error ''description is required'')
          else Inl (Error ''discount is required''))"
  using assms by simp

lemma zero_discount_offer:
  "map_of (AList.update ''discount'' (JNum 0) new_offer) ''discount'' = Some (JNum 0)"
  by (simp add: update_conv')

lemma update_fresh: "k \<notin> fst ` set al \<Longrightarrow> AList.update k v al = al @ [(k, v)]"
  by (induction al) auto

lemma find_append:
  "find P (xs @ ys) = (case find P xs of None \<Rightarrow> find P ys | Some x \<Rightarrow> Some x)"
  by (induction xs) auto

lemma strict_eq_str [simp]: "strict_eq v (Some (JStr x)) = (v = Some (JStr x))"
  by (cases "(v, Some (JStr x))" rule: strict_eq.cases) auto

subsection \<open>The insertion sort sorts\<close>

lemma insert_by_sorted:
  fixes k :: "'a \<Rightarrow> rat"
  assumes "\<And>a b. a \<in> insert x (set ys) \<Longrightarrow> b \<in> insert x (set ys) \<Longrightarrow>
             cmp a b = Inr (Some (k a - k b))"
    and "sorted_wrt (\<lambda>a b. k a \<le> k b) ys"
  shows "\<exists>zs. insert_by cmp x ys = Inr zs \<and> set zs = insert x (set ys) \<and>
              sorted_wrt (\<lambda>a b. k a \<le> k b) zs"
  using assms
proof (induction ys)
  case Nil
  then show ?case by simp
next
  case (Cons y ys)
  have c: "cmp x y = Inr (Some (k x - k y))"
    using Cons.prems(1) by simp
  show ?case
  proof (cases "k y < k x")
    case True
    have "\<exists>zs. insert_by cmp x ys = Inr zs \<and> set zs = insert x (set ys) \<and>
               sorted_wrt (\<lambda>a b. k a \<le> k b) zs"
      using Cons.prems by (intro Cons.IH) auto
    then obtain zs where zs: "insert_by cmp x ys = Inr zs" "set zs = insert x (set ys)"
      "sorted_wrt (\<lambda>a b. k a \<le> k b) zs"
      by blast
    with True c Cons.prems(2) show ?thesis
      by (auto simp: positive_def)
  next
    case False
    with c Cons.prems(2) show ?thesis
      by (auto simp: positive_def)
  qed
qed

lemma js_sort_sorted:
  fixes k :: "'a \<Rightarrow> rat"
  assumes "\<And>a b. a \<in> set xs \<Longrightarrow> b \<in> set xs \<Longrightarrow> cmp a b = Inr (Some (k a - k b))"
  shows "\<exists>ys. js_sort cmp xs = Inr ys \<and> set ys = set xs \<and> sorted_wrt (\<lambda>a b. k a \<le> k b) ys"
  using assms
proof (induction xs)
  case Nil
  then show ?case by simp
next
  case (Cons x xs)
  have "\<exists>ys. js_sort cmp xs = Inr ys \<and> set ys = set xs \<and> sorted_wrt (\<lambda>a b. k a \<le> k b) ys"
    using Cons.prems by (intro Cons.IH) auto
  then obtain ys where ys: "js_sort cmp xs = Inr ys" "set ys = set xs"
    "sorted_wrt (\<lambda>a b. k a \<le> k b) ys"
    by blast
  have "\<exists>zs. insert_by cmp x ys = Inr zs \<and> set zs = insert x (set ys) \<and>
              sorted_wrt (\<lambda>a b. k a \<le> k b) zs"
    using Cons.prems ys by (intro insert_by_sorted) auto
  with ys show ?case by auto
qed

subsection \<open>A query returns stored records\<close>

lemma fold_filter_subset:
  "set (fold (\<lambda>(key, v) xs. if P key v then filter (Q key v) xs else xs) f xs) \<subseteq> set xs"
proof (induction f arbitrary: xs)
  case Nil
  then show ?case by simp
next
  case (Cons a f)
  obtain key v where a: "a = (key, v)" by (cases a)
  have "set (fold (\<lambda>(key, v) xs. if P key v then filter (Q key v) xs else xs) f
               (if P key v then filter (Q key v) xs else xs))
        \<subseteq> set (if P key v then filter (Q key v) xs else xs)"
    by (rule Cons.IH)
  then show ?case by (auto simp: a split: if_splits)
qed

lemma query_subset: "set (query e c f s) \<subseteq> set (items_of s c)"
  unfolding query_def by (rule fold_filter_subset)

lemma tagged_prices:
  "\<forall>p \<in> set (items_of tagged_store Products). to_number example_env (map_of p ''price'') \<noteq> None"
  unfolding list_all_iff[symmetric] by code_simp

lemma tagged_dates:
  "\<forall>p \<in> set (items_of tagged_store Products).
     date_value example_env (map_of p ''createdAt'') \<noteq> None"
  unfolding list_all_iff[symmetric] by code_simp

subsection \<open>Updates and the shop guard\<close>

lemma findIndex_Some:
  "findIndex P xs = Some i \<Longrightarrow> i < length xs \<and> P (xs ! i)"
proof (induction xs arbitrary: i)
  case Nil
  then show ?case by simp
next
  case (Cons x xs)
  then show ?case by (cases "P x") (auto split: if_splits)
qed

lemma map_of_assign_other:
  "k \<notin> fst ` set data \<Longrightarrow> map_of (assign t data) k = map_of t k"
  unfolding assign_def
  by (induction data arbitrary: t) (auto simp: update_conv')

text \<open>An update changes no field that its patch does not name.\<close>

lemma update_preserves_field:
  assumes "k \<notin> fst ` set data" and "k \<noteq> ''updatedAt''"
  shows "map (\<lambda>p. map_of p k) (items_of (snd (update e c i data s)) c') =
         map (\<lambda>p. map_of p k) (items_of s c')"
proof (cases "findIndex (has_id i) (items_of s c)")
  case None
  then show ?thesis by (simp add: update_def)
next
  case (Some index)
  from findIndex_Some[OF this] have "index < length (items_of s c)" by simp
  then show ?thesis
    using assms Some
    by (simp add: update_def Let_def map_update update_conv' map_of_assign_other
          list_update_same_conv)
qed

lemma query_shopId:
  "query e Products [(''shopId'', Some (JStr sid))] s =
     (if sid = [] then items_of s Products
      else filter (\<lambda>p. map_of p ''shopId'' = Some (JStr sid)) (items_of s Products))"
proof -
  have m: "matches e ''shopId'' (Some (JStr sid)) =
             (\<lambda>p. map_of p ''shopId'' = Some (JStr sid))"
    by (rule ext) (simp add: matches_def)
  show ?thesis by (simp add: query_def m)
qed

lemma deleteShop_blocked:
  assumes "p \<in> set (items_of s Products)" and "map_of p ''shopId'' = Some (JStr sid)"
  shows "deleteShop e sid s =
           (Inl (Error
              ''Cannot delete shop with existing products. Please remove all products first.''),
            s)"
proof -
  have "query e Products [(''shopId'', Some (JStr sid))] s \<noteq> []"
    using assms by (auto simp: query_shopId filter_empty_conv)
  then show ?thesis
    by (simp add: deleteShop_def Let_def)
qed

lemma deleteProduct_keeps_shopId:
  "map (\<lambda>p. map_of p ''shopId'') (items_of (snd (deleteProduct e pid s)) Products) =
   map (\<lambda>p. map_of p ''shopId'') (items_of s Products)"
  unfolding deleteProduct_def by (rule update_preserves_field) simp_all

subsection \<open>Common features\<close>

lemma list_all_alist_update:
  "list_all P al \<Longrightarrow> P (k, v) \<Longrightarrow> list_all P (AList.update k v al)"
  by (induction al) auto

lemma add_feature_ok:
  assumes "acc_ok acc" and "k0 \<notin> set object_prototype_keys"
  shows "\<exists>acc'. add_feature p (k0, v) acc = Inr acc' \<and> acc_ok acc' \<and>
           (\<forall>k. entries_of acc' k = entries_of acc k @ (if k = k0 then [feature_of p v] else []))"
proof (cases "map_of acc k0")
  case None
  then have notin: "k0 \<notin> fst ` set acc"
    by (simp add: map_of_eq_None_iff)
  have "add_feature p (k0, v) acc = Inr (acc @ [(k0, [feature_of p v])])"
    using None assms(2) by (simp add: add_feature_def feature_of_def)
  moreover have "acc_ok (acc @ [(k0, [feature_of p v])])"
    using assms(1) notin by (simp add: acc_ok_def)
  moreover have "entries_of (acc @ [(k0, [feature_of p v])]) k =
      entries_of acc k @ (if k = k0 then [feature_of p v] else [])" for k
    using None by (simp add: entries_of_def map_add_def split: option.splits)
  ultimately show ?thesis by blast
next
  case (Some es)
  let ?acc' = "AList.update k0 (es @ [feature_of p v]) acc"
  have "add_feature p (k0, v) acc = Inr ?acc'"
    using Some by (simp add: add_feature_def feature_of_def)
  moreover have "acc_ok ?acc'"
    using assms(1) by (simp add: acc_ok_def distinct_update list_all_alist_update)
  moreover have "entries_of ?acc' k =
      entries_of acc k @ (if k = k0 then [feature_of p v] else [])" for k
    using Some by (simp add: entries_of_def update_conv')
  ultimately show ?thesis by blast
qed

lemma fold_add_feature:
  assumes "acc_ok acc" and "\<forall>k \<in> fst ` set kvs. k \<notin> set object_prototype_keys"
  shows "\<exists>acc'. fold_err (add_feature p) kvs acc = Inr acc' \<and> acc_ok acc' \<and>
           (\<forall>k. entries_of acc' k =
                  entries_of acc k @
                    map (feature_of p) (map snd (filter (\<lambda>kv. fst kv = k) kvs)))"
  using assms
proof (induction kvs arbitrary: acc)
  case Nil
  then show ?case by simp
next
  case (Cons kv kvs)
  obtain k0 v where kv: "kv = (k0, v)" by (cases kv)
  from Cons.prems kv have "k0 \<notin> set object_prototype_keys" by simp
  from add_feature_ok[OF Cons.prems(1) this, of p v]
  obtain acc1 where a1: "add_feature p (k0, v) acc = Inr acc1" "acc_ok acc1"
    "\<And>k. entries_of acc1 k = entries_of acc k @ (if k = k0 then [feature_of p v] else [])"
    by blast
  from Cons.prems(2) have "\<forall>k \<in> fst ` set kvs. k \<notin> set object_prototype_keys" by simp
  from Cons.IH[OF a1(2) this]
  obtain acc2 where a2: "fold_err (add_feature p) kvs acc1 = Inr acc2" "acc_ok acc2"
    "\<And>k. entries_of acc2 k =
           entries_of acc1 k @ map (feature_of p) (map snd (filter (\<lambda>kv. fst kv = k) kvs))"
    by blast
  have "fold_err (add_feature p) (kv # kvs) acc = Inr acc2"
    by (simp add: kv a1(1) a2(1))
  moreover have "entries_of acc2 k =
      entries_of acc k @ map (feature_of p) (map snd (filter (\<lambda>kv. fst kv = k) (kv # kvs)))" for k
    by (simp add: a2(3) a1(3) kv)
  ultimately show ?case using a2(2) by blast
qed

lemma filter_key_distinct:
  "distinct (map fst kvs) \<Longrightarrow>
   map snd (filter (\<lambda>kv. fst kv = k) kvs) = (case map_of kvs k of None \<Rightarrow> [] | Some v \<Rightarrow> [v])"
proof (induction kvs)
  case Nil
  then show ?case by simp
next
  case (Cons kv kvs)
  show ?case
  proof (cases "fst kv = k")
    case True
    with Cons.prems have "k \<notin> fst ` set kvs" by auto
    then have "filter (\<lambda>kv. fst kv = k) kvs = []"
      by (auto simp: filter_empty_conv)
    with True show ?thesis by (cases kv) simp
  next
    case False
    with Cons show ?thesis by (cases kv) auto
  qed
qed

lemma add_product_eq: "add_product p acc = fold_err (add_feature p) (spec_entries p) acc"
  by (simp add: add_product_def spec_entries_def split: option.splits)

lemma fold_add_product:
  assumes "acc_ok acc"
    and "\<forall>p \<in> set ps. distinct (map fst (spec_entries p)) \<and>
           (\<forall>k \<in> fst ` set (spec_entries p). k \<notin> set object_prototype_keys)"
  shows "\<exists>acc'. fold_err add_product ps acc = Inr acc' \<and> acc_ok acc' \<and>
           (\<forall>k. entries_of acc' k = entries_of acc k @ carriers k ps)"
  using assms
proof (induction ps arbitrary: acc)
  case Nil
  then show ?case by (simp add: carriers_def)
next
  case (Cons p ps)
  from Cons.prems(2) have d: "distinct (map fst (spec_entries p))"
    and np: "\<forall>k \<in> fst ` set (spec_entries p). k \<notin> set object_prototype_keys"
    by simp_all
  from fold_add_feature[OF Cons.prems(1) np, of p]
  obtain acc1 where a1: "fold_err (add_feature p) (spec_entries p) acc = Inr acc1" "acc_ok acc1"
    "\<And>k. entries_of acc1 k =
           entries_of acc k @
             map (feature_of p) (map snd (filter (\<lambda>kv. fst kv = k) (spec_entries p)))"
    by blast
  from Cons.prems(2) have "\<forall>p \<in> set ps. distinct (map fst (spec_entries p)) \<and>
           (\<forall>k \<in> fst ` set (spec_entries p). k \<notin> set object_prototype_keys)"
    by simp
  from Cons.IH[OF a1(2) this]
  obtain acc2 where a2: "fold_err add_product ps acc1 = Inr acc2" "acc_ok acc2"
    "\<And>k. entries_of acc2 k = entries_of acc1 k @ carriers k ps"
    by blast
  have "fold_err add_product (p # ps) acc = Inr acc2"
    by (simp add: add_product_eq a1(1) a2(1))
  moreover have "entries_of acc2 k = entries_of acc k @ carriers k (p # ps)" for k
    by (simp add: a2(3) a1(3) filter_key_distinct[OF d] carriers_def split: option.splits)
  ultimately show ?case using a2(2) by blast
qed

lemma map_of_filter_value:
  "distinct (map fst al) \<Longrightarrow>
   map_of (filter (\<lambda>(k, v). Q v) al) k =
     (case map_of al k of None \<Rightarrow> None | Some v \<Rightarrow> if Q v then Some v else None)"
proof (induction al)
  case Nil
  then show ?case by simp
next
  case (Cons kv al)
  obtain k0 v0 where kv: "kv = (k0, v0)" by (cases kv)
  show ?case
  proof (cases "k0 = k")
    case True
    with Cons.prems kv have "k \<notin> fst ` set al" by auto
    then have "map_of al k = None" "map_of (filter (\<lambda>(k, v). Q v) al) k = None"
      by (auto simp: map_of_eq_None_iff)
    with True kv show ?thesis by simp
  next
    case False
    with Cons kv show ?thesis by simp
  qed
qed

lemma extractCommonFeatures_spec:
  assumes "\<forall>p \<in> set ps. distinct (map fst (spec_entries p)) \<and>
           (\<forall>k \<in> fst ` set (spec_entries p). k \<notin> set object_prototype_keys)"
  shows "\<exists>fs. extractCommonFeatures ps = Inr fs \<and>
           (\<forall>k. map_of fs k =
                  (if 2 \<le> length (carriers k ps) then Some (carriers k ps) else None))"
proof -
  have "acc_ok []" by (simp add: acc_ok_def)
  from fold_add_product[OF this assms]
  obtain acc where acc: "fold_err add_product ps [] = Inr acc" "acc_ok acc"
    "\<And>k. entries_of acc k = entries_of [] k @ carriers k ps"
    by blast
  then have e: "entries_of acc k = carriers k ps" for k
    by (simp add: entries_of_def)
  have d: "distinct (map fst acc)" and ne: "\<forall>kv \<in> set acc. snd kv \<noteq> []"
    using acc(2) by (simp_all add: acc_ok_def list_all_iff)
  have "extractCommonFeatures ps = Inr (filter (\<lambda>(key, entries). 2 \<le> length entries) acc)"
    by (simp add: extractCommonFeatures_def acc(1))
  moreover have "map_of (filter (\<lambda>(key, entries). 2 \<le> length entries) acc) k =
      (if 2 \<le> length (carriers k ps) then Some (carriers k ps) else None)" for k
    using e[of k] by (simp add: map_of_filter_value[OF d] entries_of_def split: option.splits)
  ultimately show ?thesis by blast
qed

subsection \<open>Aggregates of the comparison\<close>

lemma is_number_to_number: "is_number v \<Longrightarrow> to_number e v = Some (num_of v)"
  by (cases v rule: is_number.cases) simp_all

lemma math_min_Some: "math_min (Some a) (map Some ys) = Some (fold min ys a)"
  by (induction ys arbitrary: a) (simp_all add: min.commute)

lemma math_max_Some: "math_max (Some a) (map Some ys) = Some (fold max ys a)"
  by (induction ys arbitrary: a) (simp_all add: max.commute)

lemma math_min_Min: "math_min (Some a) (map Some ys) = Some (Min (set (a # ys)))"
  by (simp only: math_min_Some Min.set_eq_fold)

lemma math_max_Max: "math_max (Some a) (map Some ys) = Some (Max (set (a # ys)))"
  by (simp only: math_max_Some Max.set_eq_fold)

lemma add_to_number:
  "is_number v \<Longrightarrow> add_to e (SNum (Some a)) v = SNum (Some (round_double e (a + num_of v)))"
  by (cases v rule: is_number.cases) (simp_all add: add_to_def num_add_def)

lemma fold_add_to:
  "\<forall>p \<in> set ps. is_number (f p) \<Longrightarrow>
   fold (\<lambda>p acc. add_to e acc (f p)) ps (SNum (Some a)) =
     SNum (Some (fold (\<lambda>p a. round_double e (a + num_of (f p))) ps a))"
  by (induction ps arbitrary: a) (simp_all add: add_to_number)

lemma js_lt_zero_number: "is_number v \<Longrightarrow> js_lt e (Some (JNum 0)) v = (0 < num_of v)"
  by (cases v rule: is_number.cases) (simp_all add: js_lt_num)

lemma strict_eq_zero_number: "is_number v \<Longrightarrow> strict_eq v (Some (JNum 0)) = (num_of v = 0)"
  by (cases v rule: is_number.cases) simp_all

lemma strict_eq_imp_eq: "strict_eq x y \<Longrightarrow> x = y"
  by (induction x y rule: strict_eq.induct) simp_all

lemma strict_eq_string: "is_string x \<Longrightarrow> strict_eq x y = (x = y)"
  by (cases x rule: is_string.cases) (auto dest: strict_eq_imp_eq)

lemma set_uniq_fold:
  "set (fold (\<lambda>x acc. if list_ex (strict_eq x) acc then acc else acc @ [x]) xs acc) =
     set acc \<union> set xs"
proof (induction xs arbitrary: acc)
  case Nil
  then show ?case by simp
next
  case (Cons x xs)
  show ?case
  proof (cases "list_ex (strict_eq x) acc")
    case True
    then have "x \<in> set acc"
      by (auto simp: list_ex_iff dest: strict_eq_imp_eq)
    with True Cons.IH[of acc] show ?thesis by auto
  next
    case False
    with Cons.IH[of "acc @ [x]"] show ?thesis by auto
  qed
qed

lemma distinct_uniq_fold:
  "distinct acc \<Longrightarrow> \<forall>x \<in> set xs. is_string x \<Longrightarrow>
   distinct (fold (\<lambda>x acc. if list_ex (strict_eq x) acc then acc else acc @ [x]) xs acc)"
proof (induction xs arbitrary: acc)
  case Nil
  then show ?case by simp
next
  case (Cons x xs)
  from Cons.prems(2) have sx: "is_string x" and rest: "\<forall>x \<in> set xs. is_string x"
    by simp_all
  have mem: "list_ex (strict_eq x) acc = (x \<in> set acc)"
    using sx by (auto simp: list_ex_iff strict_eq_string)
  show ?case
  proof (cases "x \<in> set acc")
    case True
    with mem Cons.IH[OF Cons.prems(1) rest] show ?thesis by simp
  next
    case False
    then have "distinct (acc @ [x])" using Cons.prems(1) by simp
    from Cons.IH[OF this rest] mem False show ?thesis by simp
  qed
qed

lemma set_uniq: "set (uniq xs) = set xs"
  by (simp add: uniq_def set_uniq_fold)

lemma distinct_uniq: "\<forall>x \<in> set xs. is_string x \<Longrightarrow> distinct (uniq xs)"
  by (simp add: uniq_def distinct_uniq_fold)

lemma read_product:
  "i \<noteq> [] \<Longrightarrow>
   read Products (Some i) s =
     (case find (has_id i) (items_of s Products) of Some item \<Rightarrow> JObj item | None \<Rightarrow> JNull)"
  by (simp add: read_def)

lemma valid_products:
  "\<forall>i \<in> set ids. i \<noteq> [] \<Longrightarrow>
   filter (\<lambda>p. p \<noteq> JNull) (map (\<lambda>i. read Products (Some i) s) ids) = map JObj (resolved ids s)"
  by (induction ids) (auto simp: resolved_def read_product map_filter_simps split: option.splits)


lemma typed_productD:
  assumes "typed_product r"
  shows "is_number (price (JObj r))" "is_number (stock (JObj r))"
    "is_string (member (Some (JObj r)) ''category'')"
    "is_string (member (Some (JObj r)) ''shopId'')"
    "distinct (map fst (spec_entries (JObj r)))"
    "\<forall>k \<in> fst ` set (spec_entries (JObj r)). k \<notin> set object_prototype_keys"
  using assms by (simp_all add: typed_product_def price_def stock_def list_all_iff)

lemma compare_typed:
  assumes typed: "\<forall>r \<in> set rs. typed_product r" and rs: "rs = r1 # r2 # rest"
    and valid: "filter (\<lambda>p. p \<noteq> JNull) (map (\<lambda>i. read Products (Some i) s) ids) = map JObj rs"
    and len: "2 \<le> length ids" "length ids \<le> 4"
  shows "\<exists>c. compareProducts e ids s = Inr c \<and> products c = map JObj rs \<and>
           pmin (price_range c) = Some (Min (set (map (\<lambda>r. num_of (map_of r ''price'')) rs))) \<and>
           pmax (price_range c) = Some (Max (set (map (\<lambda>r. num_of (map_of r ''price'')) rs))) \<and>
           average (price_range c) =
             Some (round_double e
                     (fold (\<lambda>r a. round_double e (a + num_of (map_of r ''price''))) rs 0 /
                      of_nat (length rs))) \<and>
           distinct (categories c) \<and>
           set (categories c) = set (map (\<lambda>r. map_of r ''category'') rs) \<and>
           distinct (shops c) \<and>
           set (shops c) = set (map (\<lambda>r. map_of r ''shopId'') rs) \<and>
           inStock c = length (filter (\<lambda>r. 0 < num_of (map_of r ''stock'')) rs) \<and>
           outOfStock c = length (filter (\<lambda>r. num_of (map_of r ''stock'') = 0) rs) \<and>
           (\<forall>k. map_of (common_features c) k =
                  (if 2 \<le> length (carriers k (map JObj rs))
                   then Some (carriers k (map JObj rs)) else None))"
proof -
  let ?ps = "map JObj rs"
  let ?pr = "\<lambda>r. num_of (map_of r ''price'')"
  have tpr: "\<And>r. r \<in> set rs \<Longrightarrow> is_number (map_of r ''price'')"
    and tsr: "\<And>r. r \<in> set rs \<Longrightarrow> is_number (map_of r ''stock'')"
    and tcr: "\<And>r. r \<in> set rs \<Longrightarrow> is_string (map_of r ''category'')"
    and thr: "\<And>r. r \<in> set rs \<Longrightarrow> is_string (map_of r ''shopId'')"
    using typed by (simp_all add: typed_product_def)
  have "\<forall>p \<in> set ?ps. distinct (map fst (spec_entries p)) \<and>
           (\<forall>k \<in> fst ` set (spec_entries p). k \<notin> set object_prototype_keys)"
    using typed by (auto dest: typed_productD)
  from extractCommonFeatures_spec[OF this]
  obtain fs where fs: "extractCommonFeatures ?ps = Inr fs"
    "\<And>k. map_of fs k = (if 2 \<le> length (carriers k ?ps) then Some (carriers k ?ps) else None)"
    by blast
  have nums: "map (\<lambda>p. to_number e (price p)) ?ps = map Some (map ?pr rs)"
    by (simp add: is_number_to_number price_def tpr)
  then have nums': "to_number e (price (JObj r1)) = Some (?pr r1)"
    "map (\<lambda>p. to_number e (price p)) (JObj r2 # map JObj rest) = map Some (map ?pr (r2 # rest))"
    by (simp_all add: rs)
  have mn: "math_min (to_number e (price (JObj r1)))
              (map (\<lambda>p. to_number e (price p)) (JObj r2 # map JObj rest)) =
            Some (Min (set (map ?pr rs)))"
    unfolding nums' math_min_Min by (simp add: rs)
  have mx: "math_max (to_number e (price (JObj r1)))
              (map (\<lambda>p. to_number e (price p)) (JObj r2 # map JObj rest)) =
            Some (Max (set (map ?pr rs)))"
    unfolding nums' math_max_Max by (simp add: rs)
  have "fold (\<lambda>p acc. add_to e acc (price p)) ?ps (SNum (Some 0)) =
          SNum (Some (fold (\<lambda>p a. round_double e (a + num_of (price p))) ?ps 0))"
    by (rule fold_add_to) (auto simp: price_def tpr)
  then have av: "fold (\<lambda>p acc. add_to e acc (price p)) ?ps (SNum (Some 0)) =
          SNum (Some (fold (\<lambda>r a. round_double e (a + ?pr r)) rs 0))"
    by (simp add: fold_map price_def comp_def)
  have cat: "distinct (uniq (map (\<lambda>p. member (Some p) ''category'') ?ps))"
    by (rule distinct_uniq) (auto simp: tcr)
  have shp: "distinct (uniq (map (\<lambda>p. member (Some p) ''shopId'') ?ps))"
    by (rule distinct_uniq) (auto simp: thr)
  have ins: "length (filter (\<lambda>p. js_lt e (Some (JNum 0)) (stock p)) ?ps) =
             length (filter (\<lambda>r. 0 < num_of (map_of r ''stock'')) rs)"
  proof -
    have "filter (\<lambda>p. js_lt e (Some (JNum 0)) (stock p)) ?ps =
          filter (\<lambda>p. 0 < num_of (stock p)) ?ps"
      by (rule filter_cong[OF refl]) (auto simp: js_lt_zero_number stock_def tsr)
    then show ?thesis by (simp add: filter_map comp_def stock_def)
  qed
  have outs: "length (filter (\<lambda>p. strict_eq (stock p) (Some (JNum 0))) ?ps) =
             length (filter (\<lambda>r. num_of (map_of r ''stock'') = 0) rs)"
  proof -
    have "filter (\<lambda>p. strict_eq (stock p) (Some (JNum 0))) ?ps =
          filter (\<lambda>p. num_of (stock p) = 0) ?ps"
      by (rule filter_cong[OF refl]) (auto simp: strict_eq_zero_number stock_def tsr)
    then show ?thesis by (simp add: filter_map comp_def stock_def)
  qed
  have "compareProducts e ids s =
     Inr \<lparr>products = ?ps,
          price_range =
            \<lparr>pmin = Some (Min (set (map ?pr rs))), pmax = Some (Max (set (map ?pr rs))),
             average = Some (round_double e (fold (\<lambda>r a. round_double e (a + ?pr r)) rs 0 /
                                            of_nat (length rs)))\<rparr>,
          common_features = fs,
          categories = uniq (map (\<lambda>p. member (Some p) ''category'') ?ps),
          shops = uniq (map (\<lambda>p. member (Some p) ''shopId'') ?ps),
          inStock = length (filter (\<lambda>r. 0 < num_of (map_of r ''stock'')) rs),
          outOfStock = length (filter (\<lambda>r. num_of (map_of r ''stock'') = 0) rs),
          comparedAt = now_iso e, comparedBy = getCurrentUserId s\<rparr>"
    using len mn mx av ins outs fs(1)
    by (simp add: compareProducts_def valid rs sum_number_def num_div_def Let_def)
  then show ?thesis
    using cat shp fs(2) by (simp add: set_uniq comp_def)
qed

lemma short_list_case:
  "length xs < 2 \<Longrightarrow> (case xs of p1 # p2 # ps \<Rightarrow> f p1 p2 ps | _ \<Rightarrow> d) = d"
  by (cases xs; cases "tl xs") auto

lemma resolved_1_2: "resolved [''1'', ''2''] example_store = [product1, product2]"
  by code_simp

lemma resolved_1_9: "resolved [''1'', ''9''] example_store = [product1]"
  by code_simp

lemma product1_typed: "typed_product product1"
  by code_simp

lemma product2_typed: "typed_product product2"
  by code_simp

text \<open>
  What \<^verbatim>\<open>compareProducts\<close> returns on identifiers that are not empty. It fails with
  its first or second error when there are fewer than 2 or more than 4 of them, and with
  its third error when fewer than 2 of them resolve to stored records. When the resolved
  products are as the data model describes them (\<open>typed_product\<close>), it returns them
  with the minimum and the maximum of their prices, the distinct categories and shop
  references, the numbers of products with positive and with zero stock, and as common
  features exactly the specification keys carried by at least 2 of the products, each
  with the (product, value) pairs of the products that carry it. The average is the sum
  of the prices, added up from 0 in the order of the identifiers and rounded after each
  addition, divided by their number and rounded again: the mean of the prices up to the
  rounding of doubles.
\<close>

lemma compareProducts_typed:
  "(length ids < 2 \<longrightarrow>
      compareProducts e ids s = Inl (Error ''At least 2 products are required for comparison'')) \<and>
   (4 < length ids \<longrightarrow>
      compareProducts e ids s = Inl (Error ''Maximum 4 products can be compared at once'')) \<and>
   ((\<forall>i \<in> set ids. i \<noteq> []) \<longrightarrow> 2 \<le> length ids \<longrightarrow> length ids \<le> 4 \<longrightarrow>
      (length (resolved ids s) < 2 \<longrightarrow>
         compareProducts e ids s =
           Inl (Error ''At least 2 valid products are required for comparison'')) \<and>
      (2 \<le> length (resolved ids s) \<longrightarrow> (\<forall>r \<in> set (resolved ids s). typed_product r) \<longrightarrow>
         (\<exists>c. compareProducts e ids s = Inr c \<and> products c = map JObj (resolved ids s) \<and>
            pmin (price_range c) =
              Some (Min (set (map (\<lambda>r. num_of (map_of r ''price'')) (resolved ids s)))) \<and>
            pmax (price_range c) =
              Some (Max (set (map (\<lambda>r. num_of (map_of r ''price'')) (resolved ids s)))) \<and>
            average (price_range c) =
              Some (round_double e
                      (fold (\<lambda>r a. round_double e (a + num_of (map_of r ''price'')))
                         (resolved ids s) 0 /
                       of_nat (length (resolved ids s)))) \<and>
            distinct (categories c) \<and>
            set (categories c) = set (map (\<lambda>r. map_of r ''category'') (resolved ids s)) \<and>
            distinct (shops c) \<and>
            set (shops c) = set (map (\<lambda>r. map_of r ''shopId'') (resolved ids s)) \<and>
            inStock c = length (filter (\<lambda>r. 0 < num_of (map_of r ''stock'')) (resolved ids s)) \<and>
            outOfStock c =
              length (filter (\<lambda>r. num_of (map_of r ''stock'') = 0) (resolved ids s)) \<and>
            (\<forall>k. map_of (common_features c) k =
                   (if 2 \<le> length (carriers k (map JObj (resolved ids s)))
                    then Some (carriers k (map JObj (resolved ids s))) else None)))))"
proof (intro conjI impI)
  assume "length ids < 2"
  then show "compareProducts e ids s =
      Inl (Error ''At least 2 products are required for comparison'')"
    by (simp add: compareProducts_def)
next
  assume "4 < length ids"
  then show "compareProducts e ids s = Inl (Error ''Maximum 4 products can be compared at once'')"
    by (simp add: compareProducts_def)
next
  assume ne: "\<forall>i \<in> set ids. i \<noteq> []" and len: "2 \<le> length ids" "length ids \<le> 4"
    and few: "length (resolved ids s) < 2"
  show "compareProducts e ids s =
      Inl (Error ''At least 2 valid products are required for comparison'')"
    using len few
    by (simp add: compareProducts_def valid_products[OF ne] short_list_case Let_def)
next
  assume ne: "\<forall>i \<in> set ids. i \<noteq> []" and len: "2 \<le> length ids" "length ids \<le> 4"
    and two: "2 \<le> length (resolved ids s)"
    and typed: "\<forall>r \<in> set (resolved ids s). typed_product r"
  from two obtain r1 r2 rest where rs: "resolved ids s = r1 # r2 # rest"
    by (cases "resolved ids s"; cases "tl (resolved ids s)") auto
  show "\<exists>c. compareProducts e ids s = Inr c \<and> products c = map JObj (resolved ids s) \<and>
            pmin (price_range c) =
              Some (Min (set (map (\<lambda>r. num_of (map_of r ''price'')) (resolved ids s)))) \<and>
            pmax (price_range c) =
              Some (Max (set (map (\<lambda>r. num_of (map_of r ''price'')) (resolved ids s)))) \<and>
            average (price_range c) =
              Some (round_double e
                      (fold (\<lambda>r a. round_double e (a + num_of (map_of r ''price'')))
                         (resolved ids s) 0 /
                       of_nat (length (resolved ids s)))) \<and>
            distinct (categories c) \<and>
            set (categories c) = set (map (\<lambda>r. map_of r ''category'') (resolved ids s)) \<and>
            distinct (shops c) \<and>
            set (shops c) = set (map (\<lambda>r. map_of r ''shopId'') (resolved ids s)) \<and>
            inStock c = length (filter (\<lambda>r. 0 < num_of (map_of r ''stock'')) (resolved ids s)) \<and>
            outOfStock c =
              length (filter (\<lambda>r. num_of (map_of r ''stock'') = 0) (resolved ids s)) \<and>
            (\<forall>k. map_of (common_features c) k =
                   (if 2 \<le> length (carriers k (map JObj (resolved ids s)))
                    then Some (carriers k (map JObj (resolved ids s))) else None))"
    by (rule compare_typed[OF typed rs valid_products[OF ne] len])
qed

lemma compareProducts_example:
  "compareProducts example_env [''1''] example_store =
     Inl (Error ''At least 2 products are required for comparison'') \<and>
   compareProducts example_env [''1'', ''2'', ''1'', ''2'', ''1''] example_store =
     Inl (Error ''Maximum 4 products can be compared at once'') \<and>
   resolved [''1'', ''9''] example_store = [product1] \<and>
   compareProducts example_env [''1'', ''9''] example_store =
     Inl (Error ''At least 2 valid products are required for comparison'') \<and>
   resolved [''1'', ''2''] example_store = [product1, product2] \<and>
   typed_product product1 \<and> typed_product product2 \<and>
   (\<exists>c. compareProducts example_env [''1'', ''2''] example_store = Inr c \<and>
        products c = [JObj product1, JObj product2] \<and>
        pmin (price_range c) = Some (2999 / 100) \<and>
        pmax (price_range c) = Some 45 \<and>
        inStock c = 1 \<and> outOfStock c = 1 \<and>
        map_of (common_features c) ''Material'' =
          Some [feature_of (JObj product1) (JStr ''Bamboo Fiber''),
                feature_of (JObj product2) (JStr ''100% Cotton'')] \<and>
        map_of (common_features c) ''Size'' = None)"
proof -
  have c1: "carriers ''Material'' [JObj product1, JObj product2] =
      [feature_of (JObj product1) (JStr ''Bamboo Fiber''),
       feature_of (JObj product2) (JStr ''100% Cotton'')]"
    by (simp add: carriers_def spec_entries_def product1_def product2_def)
  have c2: "carriers ''Size'' [JObj product1, JObj product2] =
      [feature_of (JObj product2) (JStr ''M/L/XL'')]"
    by (simp add: carriers_def spec_entries_def product1_def product2_def)
  have n: "num_of (map_of product1 ''price'') = 2999 / 100" "num_of (map_of product2 ''price'') = 45"
    "num_of (map_of product1 ''stock'') = 50" "num_of (map_of product2 ''stock'') = 0"
    by (simp_all add: product1_def product2_def)
  show ?thesis
    using compareProducts_typed[of "[''1'']" example_env example_store]
      compareProducts_typed[of "[''1'', ''2'', ''1'', ''2'', ''1'']" example_env example_store]
      compareProducts_typed[of "[''1'', ''9'']" example_env example_store]
      compareProducts_typed[of "[''1'', ''2'']" example_env example_store]
    by (auto simp add: resolved_1_2 resolved_1_9 product1_typed product2_typed c1 c2 n)
qed

text \<open>
  A price that is a string is joined to the running sum as text: the sum of \<open>'45'\<close> and
  \<open>30\<close>, started at 0, is \<open>'04530'\<close>, and the average of the two prices comes out as
  2265.
\<close>

lemma compareProducts_string_price:
  "fst (createProduct string_env string_priced scarf_store) = Inr ''mjv8k2a0x7'' \<and>
   (case compareProducts string_env [''mjv8k2a0x7'', ''9'']
           (snd (createProduct string_env string_priced scarf_store)) of
      Inl err \<Rightarrow> False
    | Inr c \<Rightarrow> price_range c = \<lparr>pmin = Some 30, pmax = Some 45, average = Some 2265\<rparr>)"
  by code_simp

subsection \<open>Listing flags, view counts and the soft delete\<close>

text \<open>
  No call of \<^verbatim>\<open>getShopById\<close> changes the \<open>stats\<close> field of any stored record: the
  patch of \<^verbatim>\<open>incrementShopViews\<close> names the keys \<open>stats.views\<close> and \<open>stats.lastViewed\<close>.
\<close>

lemma incrementShopViews_keeps_stats:
  "map (\<lambda>r. map_of r ''stats'') (items_of (incrementShopViews e i s) c) =
   map (\<lambda>r. map_of r ''stats'') (items_of s c)"
  by (simp add: incrementShopViews_def Let_def update_preserves_field)

lemma getShopById_keeps_stats:
  "map (\<lambda>r. map_of r ''stats'') (items_of (snd (getShopById e i s)) c) =
   map (\<lambda>r. map_of r ''stats'') (items_of s c)"
  by (simp add: getShopById_def Let_def incrementShopViews_keeps_stats)

text \<open>
  A listing asked for with \<^verbatim>\<open>{includeInactive: true}\<close> or \<^verbatim>\<open>{includeExpired: true}\<close> is
  empty unless stored records themselves carry the flag as a property.
\<close>

lemma strict_eq_true [simp]: "strict_eq v (Some (JBool True)) = (v = Some (JBool True))"
  by (cases "(v, Some (JBool True))" rule: strict_eq.cases) auto

lemma flag_query_empty:
  assumes "\<forall>r \<in> set (items_of s c). map_of r k \<noteq> Some (JBool True)"
    and "k \<noteq> ''priceRange''" and "k \<noteq> ''isActive''"
  shows "query e c (query_filters [(k, Some (JBool True))]) s = []"
proof -
  have m: "matches e k (Some (JBool True)) = (\<lambda>r. map_of r k = Some (JBool True))"
    using assms(2) by (intro ext) (simp add: matches_def)
  have "filter (\<lambda>r. map_of r k = Some (JBool True)) (items_of s c) = []"
    using assms(1) by (simp add: filter_empty_conv)
  then show ?thesis
    using assms(3) by (simp add: query_def query_filters_def m)
qed

lemma includeInactive_listing_empty:
  "\<forall>r \<in> set (items_of s Shops). map_of r ''includeInactive'' \<noteq> Some (JBool True) \<Longrightarrow>
   getShops e [(''includeInactive'', Some (JBool True))] s = Inr []"
  "\<forall>r \<in> set (items_of s Products). map_of r ''includeInactive'' \<noteq> Some (JBool True) \<Longrightarrow>
   getProducts e [(''includeInactive'', Some (JBool True))] s = Inr []"
  "\<forall>r \<in> set (items_of s Offers). map_of r ''includeInactive'' \<noteq> Some (JBool True) \<Longrightarrow>
   getOffers e [(''includeInactive'', Some (JBool True))] s = Inr []"
  by (simp_all add: getShops_def getProducts_def getOffers_def flag_query_empty lookup_def
        sortShops_def sortProducts_def sortOffers_def)

lemma includeExpired_listing_empty:
  assumes "\<forall>r \<in> set (items_of s Offers). map_of r ''includeExpired'' \<noteq> Some (JBool True)"
  shows "getOffers e [(''includeExpired'', Some (JBool True))] s = Inr []"
    and "getExpiredOffers e s = Inr []"
  using assms
  by (simp_all add: getExpiredOffers_def getOffers_def flag_query_empty lookup_def sortOffers_def)

text \<open>
  A delete removes no record, and on a collection with pairwise different identifiers
  the default listing of shops leaves the deleted shop out.
\<close>

lemma update_keeps_ids:
  "map (\<lambda>r. map_of r ''id'') (items_of (snd (update e c i
      [(''isActive'', JBool False), (''deletedAt'', d), (''deletedBy'', u)] s)) c') =
   map (\<lambda>r. map_of r ''id'') (items_of s c')"
  by (rule update_preserves_field) simp_all

lemma delete_keeps_ids:
  "map (\<lambda>r. map_of r ''id'') (items_of (snd (deleteShop e i s)) c) =
   map (\<lambda>r. map_of r ''id'') (items_of s c)"
  "map (\<lambda>r. map_of r ''id'') (items_of (snd (deleteProduct e i s)) c) =
   map (\<lambda>r. map_of r ''id'') (items_of s c)"
  "map (\<lambda>r. map_of r ''id'') (items_of (snd (deleteOffer e i s)) c) =
   map (\<lambda>r. map_of r ''id'') (items_of s c)"
  by (simp_all add: deleteShop_def deleteProduct_def deleteOffer_def Let_def update_keeps_ids)


lemma insert_by_set: "insert_by cmp x ys = Inr zs \<Longrightarrow> set zs = insert x (set ys)"
proof (induction ys arbitrary: zs)
  case Nil
  then show ?case by auto
next
  case (Cons y ys)
  show ?case
  proof (cases "cmp x y")
    case (Inl err)
    with Cons.prems show ?thesis by simp
  next
    case (Inr r)
    show ?thesis
    proof (cases "positive r")
      case True
      with Inr Cons.prems obtain ws where ws: "insert_by cmp x ys = Inr ws" "zs = y # ws"
        by (cases "insert_by cmp x ys") auto
      from Cons.IH[OF ws(1)] ws(2) show ?thesis by auto
    next
      case False
      with Inr Cons.prems show ?thesis by auto
    qed
  qed
qed

lemma js_sort_set: "js_sort cmp xs = Inr ys \<Longrightarrow> set ys = set xs"
proof (induction xs arbitrary: ys)
  case Nil
  then show ?case by simp
next
  case (Cons x xs)
  from Cons.prems obtain ws where ws: "js_sort cmp xs = Inr ws" "insert_by cmp x ws = Inr ys"
    by (cases "js_sort cmp xs") auto
  from Cons.IH[OF ws(1)] insert_by_set[OF ws(2)] show ?case by simp
qed

lemma query_default_active:
  "r \<in> set (query e c (query_filters []) s) \<Longrightarrow> map_of r ''isActive'' = Some (JBool True)"
  by (simp add: query_def query_filters_def matches_def lookup_def)

lemma soft_deleted_inactive:
  assumes d: "distinct (map (\<lambda>r. map_of r ''id'') (items_of s c))"
    and ok: "fst (update e c i [(''isActive'', JBool False), (''deletedAt'', t), (''deletedBy'', u)] s)
               = Inr ()"
    and r: "r \<in> set (items_of (snd (update e c i
               [(''isActive'', JBool False), (''deletedAt'', t), (''deletedBy'', u)] s)) c)"
    and h: "has_id i r"
  shows "map_of r ''isActive'' = Some (JBool False)"
proof -
  let ?items = "items_of s c"
  let ?data = "[(''isActive'', JBool False), (''deletedAt'', t), (''deletedBy'', u)]"
  from ok obtain index where idx: "findIndex (has_id i) ?items = Some index"
    by (cases "findIndex (has_id i) ?items") (simp_all add: update_def)
  from findIndex_Some[OF idx] have len: "index < length ?items" and hi: "has_id i (?items ! index)"
    by simp_all
  let ?new = "AList.update ''updatedAt'' (JStr (now_iso e)) (assign (?items ! index) ?data)"
  have items': "items_of (snd (update e c i ?data s)) c = ?items[index := ?new]"
    by (simp add: update_def idx Let_def)
  from r obtain j where j: "j < length ?items" "r = (?items[index := ?new]) ! j"
    by (auto simp: items' in_set_conv_nth)
  show ?thesis
  proof (cases "j = index")
    case True
    with j len show ?thesis by (simp add: assign_def update_conv')
  next
    case False
    with j have rj: "r = ?items ! j" by simp
    with h hi have "map_of (?items ! j) ''id'' = map_of (?items ! index) ''id''"
      by (simp add: has_id_def)
    then have eq: "map (\<lambda>r. map_of r ''id'') ?items ! j =
        map (\<lambda>r. map_of r ''id'') ?items ! index"
      using j(1) len by simp
    have "(map (\<lambda>r. map_of r ''id'') ?items ! j = map (\<lambda>r. map_of r ''id'') ?items ! index) =
        (j = index)"
      using d by (rule nth_eq_iff_index_eq) (simp_all add: j(1) len)
    with eq have "j = index" by (simp only:)
    with False show ?thesis by simp
  qed
qed

lemma deleted_shop_not_listed:
  assumes "distinct (map (\<lambda>r. map_of r ''id'') (items_of s Shops))"
    and "fst (deleteShop e i s) = Inr ()"
    and "getShops e' [] (snd (deleteShop e i s)) = Inr ps"
  shows "\<forall>p \<in> set ps. \<not> has_id i p"
proof
  fix p assume p: "p \<in> set ps"
  let ?data = "[(''isActive'', JBool False), (''deletedAt'', JStr (now_iso e)),
                (''deletedBy'', getCurrentUserId s)]"
  have del: "deleteShop e i s = update e Shops i ?data s"
  proof (cases "length (query e Products [(''shopId'', Some (JStr i))] s) > 0")
    case True
    with assms(2) show ?thesis by (simp add: deleteShop_def Let_def)
  next
    case False
    then show ?thesis by (simp add: deleteShop_def Let_def)
  qed
  let ?s' = "snd (deleteShop e i s)"
  from assms(3) have "js_sort (\<lambda>a b. localeCompare e' (map_of a ''name'') (map_of b ''name''))
      (query e' Shops (query_filters []) ?s') = Inr ps"
    by (simp add: getShops_def lookup_def sortShops_def)
  then have "set ps = set (query e' Shops (query_filters []) ?s')"
    by (rule js_sort_set)
  with p have q: "p \<in> set (query e' Shops (query_filters []) ?s')" by simp
  then have act: "map_of p ''isActive'' = Some (JBool True)"
    by (rule query_default_active)
  from q query_subset[of e' Shops "query_filters []" ?s']
  have mem: "p \<in> set (items_of ?s' Shops)" by (rule subsetD[rotated])
  show "\<not> has_id i p"
  proof
    assume "has_id i p"
    have ok: "fst (update e Shops i ?data s) = Inr ()"
      using assms(2) by (simp only: del)
    have mem': "p \<in> set (items_of (snd (update e Shops i ?data s)) Shops)"
      using mem by (simp only: del)
    from soft_deleted_inactive[OF assms(1) ok mem' \<open>has_id i p\<close>]
    have "map_of p ''isActive'' = Some (JBool False)" .
    with act show False by simp
  qed
qed

subsection \<open>Sorted listings\<close>

text \<open>
  On a store in which the price of every product converts to a number and the creation
  time of every product is a valid date, the listing sorted by \<open>price_low\<close> is
  non-decreasing in price and the listing sorted by \<open>newest\<close> is non-increasing in
  creation time. The listing holds the active products that carry the property \<open>sortBy\<close>
  with the requested value; it is empty when no stored product does.
\<close>

lemma sortBy_listing_empty:
  assumes "\<forall>r \<in> set (items_of s Products). map_of r ''sortBy'' \<noteq> Some (JStr k)"
    and "k \<noteq> []"
  shows "getProducts e [(''sortBy'', Some (JStr k))] s = Inr []"
proof -
  have m: "matches e ''sortBy'' (Some (JStr k)) = (\<lambda>r. map_of r ''sortBy'' = Some (JStr k))"
    by (intro ext) (simp add: matches_def)
  have "filter (\<lambda>r. map_of r ''sortBy'' = Some (JStr k)) (items_of s Products) = []"
    using assms(1) by (simp add: filter_empty_conv)
  then have "query e Products (query_filters [(''sortBy'', Some (JStr k))]) s = []"
    using assms(2) by (simp add: query_def query_filters_def m lookup_def)
  then show ?thesis
    using assms(2) by (simp add: getProducts_def sortProducts_def lookup_def)
qed

lemma getProducts_sorted:
  assumes prices: "\<forall>p \<in> set (items_of s Products). to_number e (map_of p ''price'') \<noteq> None"
    and dates: "\<forall>p \<in> set (items_of s Products). date_value e (map_of p ''createdAt'') \<noteq> None"
  shows "(\<exists>ps. getProducts e [(''sortBy'', Some (JStr ''price_low''))] s = Inr ps \<and>
              sorted_wrt (\<lambda>a b. num_le (to_number e (map_of a ''price''))
                                       (to_number e (map_of b ''price''))) ps) \<and>
         (\<exists>ps. getProducts e [(''sortBy'', Some (JStr ''newest''))] s = Inr ps \<and>
              sorted_wrt (\<lambda>a b. num_le (date_value e (map_of b ''createdAt''))
                                       (date_value e (map_of a ''createdAt''))) ps)"
proof
  let ?f = "[(''sortBy'', Some (JStr ''price_low''))]"
  let ?q = "query e Products (query_filters ?f) s"
  have "\<forall>p \<in> set ?q. \<exists>r. to_number e (map_of p ''price'') = Some r"
    using prices query_subset[of e Products "query_filters ?f" s] by auto
  from bchoice[OF this] obtain k
    where "\<forall>p \<in> set ?q. to_number e (map_of p ''price'') = Some (k p)" ..
  then have num: "\<And>p. p \<in> set ?q \<Longrightarrow> to_number e (map_of p ''price'') = Some (k p)"
    by simp
  have "\<exists>ps. js_sort (\<lambda>a b. Inr (js_sub e (map_of a ''price'') (map_of b ''price''))) ?q = Inr ps \<and>
          set ps = set ?q \<and> sorted_wrt (\<lambda>a b. k a \<le> k b) ps"
    by (rule js_sort_sorted) (simp add: js_sub_def num)
  then obtain ps where ps:
    "js_sort (\<lambda>a b. Inr (js_sub e (map_of a ''price'') (map_of b ''price''))) ?q = Inr ps"
    "set ps = set ?q" "sorted_wrt (\<lambda>a b. k a \<le> k b) ps"
    by blast
  have "sorted_wrt (\<lambda>a b. num_le (to_number e (map_of a ''price''))
                                  (to_number e (map_of b ''price''))) ps"
    using ps(3) by (rule sorted_wrt_mono_rel[rotated]) (simp add: num ps(2) num_le_def)
  moreover have "getProducts e ?f s = Inr ps"
    using ps(1) by (simp add: getProducts_def sortProducts_def lookup_def)
  ultimately show "\<exists>ps. getProducts e ?f s = Inr ps \<and>
              sorted_wrt (\<lambda>a b. num_le (to_number e (map_of a ''price''))
                                       (to_number e (map_of b ''price''))) ps"
    by blast
next
  let ?f = "[(''sortBy'', Some (JStr ''newest''))]"
  let ?q = "query e Products (query_filters ?f) s"
  have "\<forall>p \<in> set ?q. \<exists>r. date_value e (map_of p ''createdAt'') = Some r"
    using dates query_subset[of e Products "query_filters ?f" s] by auto
  from bchoice[OF this] obtain d
    where "\<forall>p \<in> set ?q. date_value e (map_of p ''createdAt'') = Some (d p)" ..
  then have num: "\<And>p. p \<in> set ?q \<Longrightarrow> date_value e (map_of p ''createdAt'') = Some (d p)"
    by simp
  have "\<exists>ps. js_sort (\<lambda>a b. Inr (date_diff e (map_of b ''createdAt'') (map_of a ''createdAt''))) ?q
             = Inr ps \<and>
          set ps = set ?q \<and> sorted_wrt (\<lambda>a b. - d a \<le> - d b) ps"
    by (rule js_sort_sorted) (simp add: date_diff_def num)
  then obtain ps where ps:
    "js_sort (\<lambda>a b. Inr (date_diff e (map_of b ''createdAt'') (map_of a ''createdAt''))) ?q = Inr ps"
    "set ps = set ?q" "sorted_wrt (\<lambda>a b. - d a \<le> - d b) ps"
    by blast
  have "sorted_wrt (\<lambda>a b. num_le (date_value e (map_of b ''createdAt''))
                                  (date_value e (map_of a ''createdAt''))) ps"
    using ps(3) by (rule sorted_wrt_mono_rel[rotated]) (simp add: num ps(2) num_le_def)
  moreover have "getProducts e ?f s = Inr ps"
    using ps(1) by (simp add: getProducts_def sortProducts_def lookup_def)
  ultimately show "\<exists>ps. getProducts e ?f s = Inr ps \<and>
              sorted_wrt (\<lambda>a b. num_le (date_value e (map_of b ''createdAt''))
                                       (date_value e (map_of a ''createdAt''))) ps"
    by blast
qed

lemma getProducts_sorted_example:
  "list_all (\<lambda>p. to_number example_env (map_of p ''price'') \<noteq> None)
     (items_of tagged_store Products) \<and>
   list_all (\<lambda>p. date_value example_env (map_of p ''createdAt'') \<noteq> None)
     (items_of tagged_store Products) \<and>
   (\<exists>ps. getProducts example_env [(''sortBy'', Some (JStr ''price_low''))] tagged_store = Inr ps \<and>
         sorted_wrt (\<lambda>a b. num_le (to_number example_env (map_of a ''price''))
                                  (to_number example_env (map_of b ''price''))) ps) \<and>
   (\<exists>ps. getProducts example_env [(''sortBy'', Some (JStr ''newest''))] tagged_store = Inr ps \<and>
         sorted_wrt (\<lambda>a b. num_le (date_value example_env (map_of b ''createdAt''))
                                  (date_value example_env (map_of a ''createdAt''))) ps) \<and>
   getProducts example_env [(''sortBy'', Some (JStr ''price_low''))] tagged_store =
     Inr [tagged ''price_low'' product1, tagged ''price_low'' product2] \<and>
   getProducts example_env [(''sortBy'', Some (JStr ''newest''))] tagged_store =
     Inr [tagged ''newest'' product2, tagged ''newest'' product1]"
proof -
  have "getProducts example_env [(''sortBy'', Some (JStr ''price_low''))] tagged_store =
          Inr [tagged ''price_low'' product1, tagged ''price_low'' product2]"
    by code_simp
  moreover have "getProducts example_env [(''sortBy'', Some (JStr ''newest''))] tagged_store =
          Inr [tagged ''newest'' product2, tagged ''newest'' product1]"
    by code_simp
  ultimately show ?thesis
    using getProducts_sorted[OF tagged_prices tagged_dates] tagged_prices tagged_dates
    by (simp add: list_all_iff)
qed

section \<open>The claims\<close>

text \<open>
  C1 (soft-delete invariant) does not hold of the code. The listing functions pass the
  whole filters object to the query, which takes every key for an equality filter on the
  record, \<open>includeInactive\<close> too: after a successful delete the record is still stored,
  with \<open>isActive = false\<close>, and the default listing leaves it out, but the listing
  with \<^verbatim>\<open>{includeInactive: true}\<close> is empty, for shops, products and offers alike.
  The evaluation below is an instance of \<open>includeInactive_listing_empty\<close>; the parts of
  the claim that hold are \<open>delete_keeps_ids\<close> and \<open>deleted_shop_not_listed\<close>.
\<close>

theorem includeInactive_listing_is_empty:
  "fst (deleteShop example_env ''2'' example_store) = Inr () \<and>
   getShops example_env [] (snd (deleteShop example_env ''2'' example_store)) = Inr [shop1] \<and>
   getShops example_env [(''includeInactive'', Some (JBool True))]
     (snd (deleteShop example_env ''2'' example_store)) = Inr [] \<and>
   member (Some (read Shops (Some ''2'') (snd (deleteShop example_env ''2'' example_store))))
     ''isActive'' = Some (JBool False) \<and>
   fst (deleteProduct example_env ''1'' example_store) = Inr () \<and>
   getProducts example_env [(''includeInactive'', Some (JBool True))]
     (snd (deleteProduct example_env ''1'' example_store)) = Inr [] \<and>
   fst (deleteOffer example_env ''2'' example_store) = Inr () \<and>
   getOffers example_env [(''includeInactive'', Some (JBool True))]
     (snd (deleteOffer example_env ''2'' example_store)) = Inr []"
  by code_simp

text \<open>
  C2 (referential guard), as amended. While any product row with \<open>shopId = S.id\<close> is in
  the products collection, whatever its \<open>isActive\<close> flag, \<^verbatim>\<open>deleteShop(S.id)\<close> fails with
  the conflict error and leaves the store unchanged; \<^verbatim>\<open>deleteProduct\<close> keeps the row, so
  the deletion of the shop fails after it as before. When no product row carries that
  \<open>shopId\<close> and the shop exists, \<^verbatim>\<open>deleteShop(S.id)\<close> succeeds and marks the shop
  inactive.
\<close>

theorem deleteShop_guard:
  assumes "sid \<noteq> []"
  shows "((\<exists>p \<in> set (items_of s Products). map_of p ''shopId'' = Some (JStr sid)) \<longrightarrow>
            deleteShop e sid s =
              (Inl (Error
                 ''Cannot delete shop with existing products. Please remove all products first.''),
               s) \<and>
            deleteShop e sid (snd (deleteProduct e' pid s)) =
              (Inl (Error
                 ''Cannot delete shop with existing products. Please remove all products first.''),
               snd (deleteProduct e' pid s))) \<and>
         (\<not> (\<exists>p \<in> set (items_of s Products). map_of p ''shopId'' = Some (JStr sid)) \<longrightarrow>
            findIndex (has_id sid) (items_of s Shops) = Some i \<longrightarrow>
            fst (deleteShop e sid s) = Inr () \<and>
            map_of (items_of (snd (deleteShop e sid s)) Shops ! i) ''isActive'' =
              Some (JBool False))"
proof (intro conjI impI)
  assume ex: "\<exists>p \<in> set (items_of s Products). map_of p ''shopId'' = Some (JStr sid)"
  then show "deleteShop e sid s =
      (Inl (Error
         ''Cannot delete shop with existing products. Please remove all products first.''), s)"
    using deleteShop_blocked by blast
  from ex obtain p where p: "p \<in> set (items_of s Products)"
    and sh: "map_of p ''shopId'' = Some (JStr sid)"
    by blast
  from p have "(\<lambda>p. map_of p ''shopId'') p \<in>
      (\<lambda>p. map_of p ''shopId'') ` set (items_of s Products)"
    by (rule imageI)
  with sh have "Some (JStr sid) \<in> set (map (\<lambda>p. map_of p ''shopId'') (items_of s Products))"
    by simp
  then have "Some (JStr sid) \<in>
      set (map (\<lambda>p. map_of p ''shopId'') (items_of (snd (deleteProduct e' pid s)) Products))"
    by (simp only: deleteProduct_keeps_shopId)
  then obtain p' where "p' \<in> set (items_of (snd (deleteProduct e' pid s)) Products)"
    "map_of p' ''shopId'' = Some (JStr sid)"
    by auto
  then show "deleteShop e sid (snd (deleteProduct e' pid s)) =
      (Inl (Error
         ''Cannot delete shop with existing products. Please remove all products first.''),
       snd (deleteProduct e' pid s))"
    by (rule deleteShop_blocked)
next
  assume none: "\<not> (\<exists>p \<in> set (items_of s Products). map_of p ''shopId'' = Some (JStr sid))"
    and idx: "findIndex (has_id sid) (items_of s Shops) = Some i"
  from none assms have q: "query e Products [(''shopId'', Some (JStr sid))] s = []"
    by (auto simp: query_shopId filter_empty_conv)
  from findIndex_Some[OF idx] have len: "i < length (items_of s Shops)" by simp
  show "fst (deleteShop e sid s) = Inr ()"
    by (simp add: deleteShop_def q update_def idx Let_def)
  show "map_of (items_of (snd (deleteShop e sid s)) Shops ! i) ''isActive'' = Some (JBool False)"
    using len by (simp add: deleteShop_def q update_def idx assign_def update_conv' Let_def)
qed

theorem deleteShop_guard_witness:
  "list_ex (\<lambda>p. map_of p ''shopId'' = Some (JStr ''1'')) (items_of example_store Products) \<and>
   deleteShop example_env ''1'' example_store =
     (Inl (Error
        ''Cannot delete shop with existing products. Please remove all products first.''),
      example_store) \<and>
   deleteShop example_env ''1'' (snd (deleteProduct example_env ''1'' example_store)) =
     (Inl (Error
        ''Cannot delete shop with existing products. Please remove all products first.''),
      snd (deleteProduct example_env ''1'' example_store)) \<and>
   \<not> list_ex (\<lambda>p. map_of p ''shopId'' = Some (JStr ''2'')) (items_of example_store Products) \<and>
   findIndex (has_id ''2'') (items_of example_store Shops) = Some 1 \<and>
   fst (deleteShop example_env ''2'' example_store) = Inr () \<and>
   map_of (items_of (snd (deleteShop example_env ''2'' example_store)) Shops ! 1) ''isActive'' =
     Some (JBool False)"
proof -
  have a: "\<exists>p \<in> set (items_of example_store Products). map_of p ''shopId'' = Some (JStr ''1'')"
    by (simp add: example_store_def product1_def)
  have b: "\<not> (\<exists>p \<in> set (items_of example_store Products).
                map_of p ''shopId'' = Some (JStr ''2''))"
    by (simp add: example_store_def product1_def product2_def)
  have idx: "findIndex (has_id ''2'') (items_of example_store Shops) = Some 1"
    by (simp add: example_store_def shop1_def shop2_def has_id_def)
  have ne: "''1'' \<noteq> []" "''2'' \<noteq> []"
    by simp_all
  show ?thesis
    using deleteShop_guard[OF ne(1), of example_store example_env example_env "''1''"]
      deleteShop_guard[OF ne(2), of example_store example_env example_env "''1''" 1]
      a b idx
    by (simp add: list_ex_iff)
qed

text \<open>
  C2 as stated fails: with every product of shop 1 deleted through \<^verbatim>\<open>deleteProduct\<close>,
  \<^verbatim>\<open>deleteShop\<close> of shop 1 still fails with the conflict error.
\<close>

theorem deleteShop_after_deleteProduct_fails:
  "fst (deleteProduct example_env ''1'' example_store) = Inr () \<and>
   fst (deleteProduct example_env ''2'' (snd (deleteProduct example_env ''1'' example_store))) =
     Inr () \<and>
   fst (deleteShop example_env ''1''
          (snd (deleteProduct example_env ''2''
                  (snd (deleteProduct example_env ''1'' example_store))))) =
     Inl (Error
       ''Cannot delete shop with existing products. Please remove all products first.'')"
  by code_simp

text \<open>
  C3 (view-count increment) does not hold of the code. The gateway's update on the
  fallback backend merges the patch key by key, so the key \<open>stats.views\<close> becomes a
  top-level property of the record: \<^verbatim>\<open>getShopById\<close> returns the record, but the stored
  \<open>stats.views\<close> keeps its value (5 here) and a property named \<open>stats.views\<close> is set
  to 6, on the first call and again on the second. On every store,
  \<open>getShopById_keeps_stats\<close> says that the \<open>stats\<close> field of no record changes.
\<close>

theorem getShopById_leaves_views:
  "fst (getShopById example_env ''1'' example_store) = Inr (JObj shop1) \<and>
   (let s1 = snd (getShopById example_env ''1'' example_store);
        stored1 = Some (read Shops (Some ''1'') s1);
        s2 = snd (getShopById example_env ''1'' s1);
        stored2 = Some (read Shops (Some ''1'') s2)
    in member (member (Some (JObj shop1)) ''stats'') ''views'' = Some (JNum 5) \<and>
       member (member stored1 ''stats'') ''views'' = Some (JNum 5) \<and>
       member stored1 ''stats.views'' = Some (JNum 6) \<and>
       member (member stored1 ''stats'') ''lastViewed'' = None \<and>
       member stored1 ''stats.lastViewed'' = Some (JStr ''2026-01-01T00:00:00.000Z'') \<and>
       member (member stored2 ''stats'') ''views'' = Some (JNum 5) \<and>
       member stored2 ''stats.views'' = Some (JNum 6))"
  by code_simp

text \<open>
  C4 (round trip). For a payload \<open>X\<close> that passes the product validator and has none of
  the fields \<open>id\<close>, \<open>createdAt\<close>, \<open>isActive\<close>, \<open>createdBy\<close>, \<open>stats\<close>, and a generated
  identifier that is not empty and not yet in the collection, \<^verbatim>\<open>createProduct\<close> returns
  the identifier and \<^verbatim>\<open>getProductById\<close> of it then returns the record made of the fields
  of \<open>X\<close>, unchanged and in order, followed by \<open>isActive = true\<close>, the creator, the
  zeroed counters, the identifier and the creation time stamp.
\<close>

theorem create_then_get_product:
  assumes valid: "validateProductData e X False = Inr ()"
    and plain: "fst ` set X \<inter> {''id'', ''createdAt'', ''isActive'', ''createdBy'', ''stats''} = {}"
    and fresh: "find (has_id (new_id e)) (items_of s Products) = None"
    and nonempty: "new_id e \<noteq> []"
  shows "fst (createProduct e X s) = Inr (new_id e) \<and>
         fst (getProductById e' (new_id e) (snd (createProduct e X s))) =
           Inr (JObj (X @ [(''isActive'', JBool True), (''createdBy'', getCurrentUserId s),
                           (''stats'', JObj [(''views'', JNum 0), (''purchases'', JNum 0),
                                             (''rating'', JNum 0), (''reviews'', JNum 0)]),
                           (''id'', JStr (new_id e)), (''createdAt'', JStr (now_iso e))]))"
proof -
  let ?r = "X @ [(''isActive'', JBool True), (''createdBy'', getCurrentUserId s),
                 (''stats'', JObj [(''views'', JNum 0), (''purchases'', JNum 0),
                                   (''rating'', JNum 0), (''reviews'', JNum 0)]),
                 (''id'', JStr (new_id e)), (''createdAt'', JStr (now_iso e))]"
  have rec: "AList.update ''createdAt'' (JStr (now_iso e))
          (AList.update ''id'' (JStr (new_id e))
             (AList.update ''stats''
                  (JObj [(''views'', JNum 0), (''purchases'', JNum 0),
                         (''rating'', JNum 0), (''reviews'', JNum 0)])
                  (AList.update ''createdBy'' (getCurrentUserId s)
                     (AList.update ''isActive'' (JBool True) X)))) = ?r"
    using plain by (simp add: update_fresh)
  have cp: "createProduct e X s =
              (Inr (new_id e), set_items Products (items_of s Products @ [?r]) s)"
    using valid by (simp add: createProduct_def create_eq rec)
  from plain have "map_of X ''id'' = None"
    by (simp add: map_of_eq_None_iff)
  then have hid: "has_id (new_id e) ?r"
    by (simp add: has_id_def map_add_def)
  have "read Products (Some (new_id e)) (set_items Products (items_of s Products @ [?r]) s) =
          JObj ?r"
    using nonempty fresh hid by (simp add: read_def find_append)
  then show ?thesis
    by (simp add: cp getProductById_def Let_def)
qed

theorem create_then_get_product_witness:
  "validateProductData example_env new_product False = Inr () \<and>
   find (has_id ''mjv8k2a0x7'') (items_of example_store Products) = None \<and>
   fst (getProductById example_env ''mjv8k2a0x7''
          (snd (createProduct example_env new_product example_store))) =
     Inr (JObj (new_product @
                  [(''isActive'', JBool True), (''createdBy'', JStr ''u42''),
                   (''stats'', JObj [(''views'', JNum 0), (''purchases'', JNum 0),
                                     (''rating'', JNum 0), (''reviews'', JNum 0)]),
                   (''id'', JStr ''mjv8k2a0x7''),
                   (''createdAt'', JStr ''2026-01-01T00:00:00.000Z'')]))"
proof -
  have plain: "fst ` set new_product \<inter>
                 {''id'', ''createdAt'', ''isActive'', ''createdBy'', ''stats''} = {}"
    by (simp add: new_product_def)
  have fresh: "find (has_id (new_id example_env)) (items_of example_store Products) = None"
    by (simp add: example_env_def example_store_def has_id_def product1_def product2_def)
  have nonempty: "new_id example_env \<noteq> []"
    by (simp add: example_env_def)
  have uid: "getCurrentUserId example_store = JStr ''u42''"
    by (simp add: getCurrentUserId_def example_store_def)
  show ?thesis
    using create_then_get_product[OF new_product_valid plain fresh nonempty, of example_env]
      new_product_valid fresh
    by (simp add: uid) (simp add: example_env_def)
qed

text \<open>
  C5 (expiry filter) does not hold of the code. \<open>includeExpired\<close> reaches the query as
  an equality filter as well: an active offer whose \<open>validTo\<close> lies in the past is left
  out of the default listing, but it is also missing from the listing with
  \<^verbatim>\<open>{includeExpired: true}\<close> and from \<^verbatim>\<open>getExpiredOffers()\<close>, which are empty.
  The evaluation below is an instance of \<open>includeExpired_listing_empty\<close>.
\<close>

theorem expired_offer_is_never_listed:
  "num_lt (date_value example_env (map_of offer1 ''validTo'')) (Some (now_ms example_env)) \<and>
   map_of offer1 ''isActive'' = Some (JBool True) \<and>
   items_of example_store Offers = [offer1, offer2] \<and>
   getOffers example_env [] example_store = Inr [offer2] \<and>
   getOffers example_env [(''includeExpired'', Some (JBool True))] example_store = Inr [] \<and>
   getExpiredOffers example_env example_store = Inr []"
  by code_simp

text \<open>
  C6 (comparison bounds and aggregates) does not hold of the code. \<^verbatim>\<open>compareProducts\<close>
  is to fail with \<open>At least 2 valid products are required for comparison\<close> when fewer
  than 2 of the identifiers resolve to stored records, and it counts the records that are
  not \<^verbatim>\<open>null\<close> for that. But the gateway's \<^verbatim>\<open>read\<close> takes an empty identifier for no
  identifier and returns the whole collection, which is not \<^verbatim>\<open>null\<close>: for the identifiers
  \<^verbatim>\<open>['', '']\<close> no identifier resolves to a record, and the comparison is returned all the
  same, of two copies of the collection, with \<^verbatim>\<open>NaN\<close> for the minimum, the maximum and
  the average of the prices. What the comparison returns on identifiers that are not
  empty is \<open>compareProducts_typed\<close>; \<open>compareProducts_string_price\<close> is a second input
  on which the average is not the sum of the prices divided by their count.
\<close>

theorem compareProducts_empty_ids_pass:
  "resolved ['''', ''''] example_store = [] \<and>
   compareProducts example_env ['''', ''''] example_store \<noteq>
     Inl (Error ''At least 2 valid products are required for comparison'') \<and>
   (case compareProducts example_env ['''', ''''] example_store of
      Inl err \<Rightarrow> False
    | Inr c \<Rightarrow>
        products c = [JArr [JObj product1, JObj product2], JArr [JObj product1, JObj product2]] \<and>
        price_range c = \<lparr>pmin = None, pmax = None, average = None\<rparr>)"
  by code_simp

text \<open>
  C7 (discount validation boundary). For a payload that passes the offer validator,
  \<^verbatim>\<open>createOffer\<close> with the discount replaced by 100 succeeds and returns the generated
  identifier, while with the discount replaced by 101 or by -1 it fails with the error
  whose message names the discount (\<open>Discount must be between 0 and 100 percent\<close>) and
  leaves the store as it was.
\<close>

theorem createOffer_discount_boundary:
  assumes "validateOfferData e X False = Inr ()"
  shows "fst (createOffer e (AList.update ''discount'' (JNum 100) X) s) = Inr (new_id e) \<and>
         createOffer e (AList.update ''discount'' (JNum 101) X) s =
           (Inl (Error ''Discount must be between 0 and 100 percent''), s) \<and>
         createOffer e (AList.update ''discount'' (JNum (- 1)) X) s =
           (Inl (Error ''Discount must be between 0 and 100 percent''), s)"
  using validateOffer_discount[OF assms, of 100] validateOffer_discount[OF assms, of 101]
    validateOffer_discount[OF assms, of "- 1"]
  by (simp add: createOffer_def create_eq)

theorem createOffer_discount_boundary_witness:
  "validateOfferData example_env new_offer False = Inr () \<and>
   fst (createOffer example_env (AList.update ''discount'' (JNum 100) new_offer) example_store) =
     Inr ''mjv8k2a0x7'' \<and>
   createOffer example_env (AList.update ''discount'' (JNum 101) new_offer) example_store =
     (Inl (Error ''Discount must be between 0 and 100 percent''), example_store) \<and>
   createOffer example_env (AList.update ''discount'' (JNum (- 1)) new_offer) example_store =
     (Inl (Error ''Discount must be between 0 and 100 percent''), example_store)"
  using createOffer_discount_boundary[OF new_offer_valid, of example_store] new_offer_valid
  by (simp add: example_env_def)

text \<open>
  C8 (sort order) does not hold of the code. \<^verbatim>\<open>getProducts\<close> passes the whole filters
  object to the query, \<open>sortBy\<close> too, so that the query keeps the products that
  themselves carry a property \<open>sortBy\<close> with the requested value: on the example store,
  whose two products are active and are both in the default listing, the listings sorted
  by \<open>price_low\<close> and by \<open>newest\<close> are empty (\<open>sortBy_listing_empty\<close>). And where
  records do pass the query, the comparator of a record without a price, or without a
  creation time, is \<^verbatim>\<open>NaN\<close> against every other record, and the list comes back in the
  stored order: the prices 3, none, 1, and the creation times 2019, none, 2020.
  Where every record has a price and a creation time the order is right
  (\<open>getProducts_sorted\<close>).
\<close>

theorem sortBy_listing_is_empty_or_unsorted:
  "items_of example_store Products = [product1, product2] \<and>
   getProducts example_env [] example_store = Inr [product2, product1] \<and>
   getProducts example_env [(''sortBy'', Some (JStr ''price_low''))] example_store = Inr [] \<and>
   getProducts example_env [(''sortBy'', Some (JStr ''newest''))] example_store = Inr [] \<and>
   getProducts example_env [(''sortBy'', Some (JStr ''price_low''))] gap_store =
     Inr [clay_pot, unpriced_basket, tea_cup] \<and>
   map (\<lambda>p. map_of p ''price'') [clay_pot, unpriced_basket, tea_cup] =
     [Some (JNum 3), None, Some (JNum 1)] \<and>
   \<not> sorted_wrt (\<lambda>a b. num_le (to_number example_env (map_of a ''price''))
                             (to_number example_env (map_of b ''price'')))
       [clay_pot, unpriced_basket, tea_cup] \<and>
   getProducts example_env [(''sortBy'', Some (JStr ''newest''))] gap_store =
     Inr [old_lamp, undated_mat, new_stool] \<and>
   map (\<lambda>p. map_of p ''createdAt'') [old_lamp, undated_mat, new_stool] =
     [Some (JStr ''2019-01-01T00:00:00.000Z''), None, Some (JStr ''2020-01-01T00:00:00.000Z'')] \<and>
   \<not> sorted_wrt (\<lambda>a b. num_le (date_value example_env (map_of b ''createdAt''))
                             (date_value example_env (map_of a ''createdAt'')))
       [old_lamp, undated_mat, new_stool]"
  by code_simp

text \<open>
  C9 (falsy required fields), as amended. The offer validator tests the required fields
  for truthiness, in the order title, description, discount: for every payload whose
  discount is the number 0, \<^verbatim>\<open>createOffer\<close> fails and stores nothing, with
  \<open>title is required\<close> when the title is falsy, else \<open>description is required\<close> when the
  description is falsy, else \<open>discount is required\<close>. The product validator tests for
  \<^verbatim>\<open>undefined\<close> and \<^verbatim>\<open>null\<close> only: a valid product payload with price and stock set to 0
  is accepted.
\<close>

theorem zero_is_rejected_for_offers_only:
  assumes "map_of X ''discount'' = Some (JNum 0)"
    and "validateProductData e P False = Inr ()"
  shows "createOffer e X s =
           (if \<not> truthy (map_of X ''title'') then (Inl (Error ''title is required''), s)
            else if \<not> truthy (map_of X ''description'')
              then (Inl (Error ''description is required''), s)
            else (Inl (Error ''discount is required''), s)) \<and>
         fst (createProduct e
                (AList.update ''stock'' (JNum 0) (AList.update ''price'' (JNum 0) P)) s) =
           Inr (new_id e)"
  using required_discount_zero[OF assms(1)] validateProduct_zero[OF assms(2)]
  by (simp add: createOffer_def validateOfferData_def createProduct_def create_eq Let_def
        del: required_truthy.simps)

theorem zero_is_rejected_for_offers_only_witness:
  "map_of (AList.update ''discount'' (JNum 0) new_offer) ''discount'' = Some (JNum 0) \<and>
   validateProductData example_env new_product False = Inr () \<and>
   createOffer example_env (AList.update ''discount'' (JNum 0) new_offer) example_store =
     (Inl (Error ''discount is required''), example_store) \<and>
   fst (createProduct example_env
          (AList.update ''stock'' (JNum 0) (AList.update ''price'' (JNum 0) new_product))
          example_store) = Inr ''mjv8k2a0x7''"
  using zero_is_rejected_for_offers_only[OF zero_discount_offer new_product_valid, of example_store]
    new_product_valid
  by (simp add: new_offer_def example_env_def)

text \<open>
  C9 as stated fails: a payload with discount 0 and no title is rejected with
  \<open>title is required\<close>, not with \<open>discount is required\<close>.
\<close>

theorem zero_discount_other_message:
  "map_of untitled_offer ''discount'' = Some (JNum 0) \<and>
   createOffer example_env untitled_offer example_store =
     (Inl (Error ''title is required''), example_store) \<and>
   fst (createOffer example_env untitled_offer example_store) \<noteq>
     Inl (Error ''discount is required'')"
  by (simp add: untitled_offer_def createOffer_def validateOfferData_def Let_def)

text \<open>
  C10 (reserved fields are overwritten on create). Whatever the data object holds, the
  gateway's \<^verbatim>\<open>create\<close> returns the generated identifier and appends one record whose
  \<open>id\<close> is that identifier and whose \<open>createdAt\<close> is the current time stamp. For a shop
  payload that passes validation, \<^verbatim>\<open>createShop\<close> appends one record whose \<open>id\<close>,
  \<open>createdAt\<close>, \<open>isActive\<close>, \<open>createdBy\<close> and \<open>stats\<close> are the generated identifier, the
  current time stamp, \<open>true\<close>, the current actor and the zeroed counters, whatever the
  payload holds under these names.
\<close>

theorem create_overwrites_reserved_fields:
  assumes "validateShopData e shopData False = Inr ()"
  shows "(let s' = snd (create e c data s); r = last (items_of s' c)
          in fst (create e c data s) = new_id e \<and>
             items_of s' c = items_of s c @ [r] \<and>
             map_of r ''id'' = Some (JStr (new_id e)) \<and>
             map_of r ''createdAt'' = Some (JStr (now_iso e))) \<and>
         (let s' = snd (createShop e shopData s); r = last (items_of s' Shops)
          in fst (createShop e shopData s) = Inr (new_id e) \<and>
             items_of s' Shops = items_of s Shops @ [r] \<and>
             map_of r ''id'' = Some (JStr (new_id e)) \<and>
             map_of r ''createdAt'' = Some (JStr (now_iso e)) \<and>
             map_of r ''isActive'' = Some (JBool True) \<and>
             map_of r ''createdBy'' = Some (getCurrentUserId s) \<and>
             map_of r ''stats'' =
               Some (JObj [(''totalProducts'', JNum 0), (''totalOffers'', JNum 0),
                           (''views'', JNum 0), (''rating'', JNum 0), (''reviews'', JNum 0)]))"
  using assms
  by (simp add: create_eq createShop_def update_conv' Let_def)

theorem create_overwrites_reserved_fields_witness:
  "validateShopData example_env forged_shop False = Inr () \<and>
   map_of forged_shop ''id'' = Some (JStr ''1'') \<and>
   map_of forged_shop ''isActive'' = Some (JBool False) \<and>
   map_of forged_shop ''stats'' = Some (JObj [(''views'', JNum 1000000)]) \<and>
   (let r = last (items_of (snd (createShop example_env forged_shop example_store)) Shops)
    in fst (createShop example_env forged_shop example_store) = Inr ''mjv8k2a0x7'' \<and>
       map_of r ''id'' = Some (JStr ''mjv8k2a0x7'') \<and>
       map_of r ''createdAt'' = Some (JStr ''2026-01-01T00:00:00.000Z'') \<and>
       map_of r ''isActive'' = Some (JBool True) \<and>
       map_of r ''createdBy'' = Some (JStr ''u42'') \<and>
       map_of r ''stats'' =
         Some (JObj [(''totalProducts'', JNum 0), (''totalOffers'', JNum 0),
                     (''views'', JNum 0), (''rating'', JNum 0), (''reviews'', JNum 0)]))"
  using create_overwrites_reserved_fields[OF forged_shop_valid, of Shops forged_shop example_store]
    forged_shop_valid
  by (simp add: Let_def example_env_def example_store_def forged_shop_def getCurrentUserId_def)

end
